theory Spec2Isabelle
  imports Main "HOL-Library.Sublist"
begin

section \<open>JavaScript values\<close>

text \<open>
  The plan objects that travel through the extension are built either by object literals of
  the program or by \<^verbatim>\<open>JSON.parse\<close>; in the second case the TypeScript cast
  \<^verbatim>\<open>parsed as PlanResult\<close> checks nothing, so a value is modelled as what it is at run time.
  A number carries the text that \<^verbatim>\<open>String(x)\<close> gives for it; an object is the list of its own
  properties in insertion order. A string is the sequence of the bytes of its UTF-8 encoding
  (so the model speaks of well-formed text, without lone surrogates); where the program counts
  or classifies characters, the operations below read the encoding.
\<close>

datatype jsval =
    JUndefined
  | JNull
  | JBool bool
  | JNum string
  | JStr string
  | JArr "jsval list"
  | JObj "(string \<times> jsval) list"

datatype exn = TypeError | SyntaxError | Error string

text \<open>\<^verbatim>\<open>v == null\<close>: the values on which a property read throws and that \<^verbatim>\<open>??\<close> replaces.\<close>

fun nullish :: "jsval \<Rightarrow> bool" where
  "nullish JUndefined = True"
| "nullish JNull = True"
| "nullish v = False"

text \<open>
  \<^verbatim>\<open>v.k\<close> for a value that is neither \<^verbatim>\<open>null\<close> nor \<^verbatim>\<open>undefined\<close> and a key that no
  prototype defines (every data key the program reads): an own property of an object, and
  \<^verbatim>\<open>undefined\<close> otherwise. The callers raise the TypeError of a read on a nullish value.
\<close>

fun field :: "jsval \<Rightarrow> string \<Rightarrow> jsval" where
  "field (JObj kvs) k = (case map_of kvs k of None \<Rightarrow> JUndefined | Some v \<Rightarrow> v)"
| "field v k = JUndefined"

definition get :: "jsval \<Rightarrow> string \<Rightarrow> exn + jsval" where
  "get v k = (if nullish v then Inl TypeError else Inr (field v k))"

text \<open>\<^verbatim>\<open>o.k = v\<close> on an object: an existing property keeps its place, a new one is added last.\<close>

fun put_kv :: "string \<Rightarrow> jsval \<Rightarrow> (string \<times> jsval) list \<Rightarrow> (string \<times> jsval) list" where
  "put_kv k v [] = [(k, v)]"
| "put_kv k v ((k', v') # kvs) = (if k' = k then (k, v) # kvs else (k', v') # put_kv k v kvs)"

fun put :: "jsval \<Rightarrow> string \<Rightarrow> jsval \<Rightarrow> jsval" where
  "put (JObj kvs) k v = JObj (put_kv k v kvs)"
| "put w k v = w"

text \<open>Truthiness, as \<^verbatim>\<open>!v\<close>, \<^verbatim>\<open>a || b\<close> and \<^verbatim>\<open>if (v)\<close> test it.\<close>

fun truthy :: "jsval \<Rightarrow> bool" where
  "truthy JUndefined = False"
| "truthy JNull = False"
| "truthy (JBool b) = b"
| "truthy (JNum s) = (s \<noteq> ''0'' \<and> s \<noteq> ''NaN'')"
| "truthy (JStr s) = (s \<noteq> [])"
| "truthy (JArr xs) = True"
| "truthy (JObj kvs) = True"

definition js_or :: "jsval \<Rightarrow> jsval \<Rightarrow> jsval" where
  "js_or a b = (if truthy a then a else b)"

definition coalesce :: "jsval \<Rightarrow> jsval \<Rightarrow> jsval" where
  "coalesce a b = (if nullish a then b else a)"

text \<open>\<^verbatim>\<open>xs.join(sep)\<close> on strings.\<close>

fun join :: "string \<Rightarrow> string list \<Rightarrow> string" where
  "join sep [] = []"
| "join sep [x] = x"
| "join sep (x # y # ys) = x @ sep @ join sep (y # ys)"

text \<open>
  The string a template literal \<^verbatim>\<open>`${v}`\<close> inserts for a value whose conversion succeeds. An
  object is converted by its \<^verbatim>\<open>toString\<close> method, which is the inherited one unless the object
  has an own property of that name.
\<close>

fun ToString :: "jsval \<Rightarrow> string" where
  "ToString JUndefined = ''undefined''"
| "ToString JNull = ''null''"
| "ToString (JBool b) = (if b then ''true'' else ''false'')"
| "ToString (JNum s) = s"
| "ToString (JStr s) = s"
| "ToString (JArr xs) = join '','' (map (\<lambda>x. if nullish x then [] else ToString x) xs)"
| "ToString (JObj kvs) = ''[object Object]''"

text \<open>
  The conversion to a primitive, which a template literal, \<^verbatim>\<open>join\<close>, \<^verbatim>\<open>+\<close> and \<^verbatim>\<open>>\<close> apply to
  an object, throws a TypeError when the object has an own property \<^verbatim>\<open>toString\<close>: in a value
  read from JSON such a property is never a function, and the inherited \<^verbatim>\<open>valueOf\<close> returns
  the object itself. An array is converted by \<^verbatim>\<open>join\<close>, which converts every element but
  \<^verbatim>\<open>null\<close> and \<^verbatim>\<open>undefined\<close>.
\<close>

fun stringable :: "jsval \<Rightarrow> bool" where
  "stringable (JObj kvs) = (map_of kvs ''toString'' = None)"
| "stringable (JArr xs) = list_all (\<lambda>x. nullish x \<or> stringable x) xs"
| "stringable v = True"

definition toText :: "jsval \<Rightarrow> exn + string" where
  "toText v = (if stringable v then Inr (ToString v) else Inl TypeError)"

text \<open>One statement after another: the first exception ends the evaluation.\<close>

definition bindE :: "exn + 'a \<Rightarrow> ('a \<Rightarrow> exn + 'b) \<Rightarrow> exn + 'b" where
  "bindE r f = (case r of Inl e \<Rightarrow> Inl e | Inr x \<Rightarrow> f x)"

definition NL :: string where
  "NL = [CHR 0x0A]"

definition unlines :: "string list \<Rightarrow> string" where
  "unlines ls = join NL ls"

text \<open>Decimal text of a non-negative integer, as a template literal prints an index or a length.\<close>

definition digit :: "nat \<Rightarrow> char" where
  "digit d = ''0123456789'' ! d"

fun show_nat :: "nat \<Rightarrow> string" where
  "show_nat n = (if n < 10 then [digit n] else show_nat (n div 10) @ [digit (n mod 10)])"

declare show_nat.simps [simp del]

text \<open>
  \<^verbatim>\<open>xs.slice(b, e)\<close> and \<^verbatim>\<open>xs.slice(b)\<close> for non-negative bounds: both ends are clamped to the
  length, and an end before the start gives the empty array.
\<close>

definition slice :: "nat \<Rightarrow> nat \<Rightarrow> 'a list \<Rightarrow> 'a list" where
  "slice b e xs = take (e - b) (drop b xs)"

definition slice_from :: "nat \<Rightarrow> 'a list \<Rightarrow> 'a list" where
  "slice_from b xs = drop b xs"

section \<open>Types of the extension (src/types/index.ts)\<close>

datatype PlanMode = Plan | Phase

fun mode_text :: "PlanMode \<Rightarrow> string" where
  "mode_text Plan = ''plan''"
| "mode_text Phase = ''phase''"

record PlanRequest =
  task :: string
  mode :: PlanMode
  hints :: "string list option"

record ScannedFile =
  path :: string
  language :: string
  size_bytes :: nat

record ProjectContext =
  rootPath :: string
  files :: "ScannedFile list"
  techStack :: "string list"
  summary :: string

section \<open>Fallback synthesis (PlanGenerator.ts)\<close>

definition step_obj :: "string \<Rightarrow> string \<Rightarrow> string \<Rightarrow> string list \<Rightarrow> string \<Rightarrow> jsval" where
  "step_obj i t d refs r =
     JObj [(''id'', JStr i), (''title'', JStr t), (''description'', JStr d),
           (''references'', JArr (map JStr refs)), (''reasoning'', JStr r)]"

definition phase_obj :: "string \<Rightarrow> string \<Rightarrow> string \<Rightarrow> jsval list \<Rightarrow> jsval" where
  "phase_obj i t s steps =
     JObj [(''id'', JStr i), (''title'', JStr t), (''summary'', JStr s), (''steps'', JArr steps)]"

definition createSinglePhase :: "ScannedFile list \<Rightarrow> jsval" where
  "createSinglePhase fs =
     phase_obj ''phase-1'' ''Implementation''
       ''Execute the task with focused steps covering analysis, implementation, and validation.''
       (map (\<lambda>(index, file).
               step_obj (''step-'' @ show_nat (index + 1))
                 (''Review '' @ path file)
                 (''Inspect '' @ path file @ '' ('' @ language file
                    @ '') for necessary updates related to the task.'')
                 [path file]
                 ''Prioritise high-signal files derived from workspace scan.'')
            (enumerate 0 fs)
        @ [step_obj ''step-testing'' ''Validate changes''
             ''Run existing tests and linting to ensure the implementation is stable.''
             [''package.json'']
             ''Guarantees the task outcome meets project quality standards.''])"

text \<open>
  The three slices of \<^verbatim>\<open>createPhasedPlan\<close>. \<^verbatim>\<open>Math.ceil(n / 3)\<close> is \<open>(n + 2) div 3\<close> on the
  lengths an array can have.
\<close>

definition analysisFiles :: "ScannedFile list \<Rightarrow> ScannedFile list" where
  "analysisFiles fs = slice 0 (max 2 ((length fs + 2) div 3)) fs"

definition implementationFiles :: "ScannedFile list \<Rightarrow> ScannedFile list" where
  "implementationFiles fs = slice (length (analysisFiles fs)) (length (analysisFiles fs) * 2) fs"

definition verificationFiles :: "ScannedFile list \<Rightarrow> ScannedFile list" where
  "verificationFiles fs = slice_from (length (analysisFiles fs) * 2) fs"

definition createPhasedPlan :: "ScannedFile list \<Rightarrow> jsval list" where
  "createPhasedPlan fs =
     [phase_obj ''phase-analysis'' ''Analysis & Discovery''
        ''Understand current implementation details and dependencies.''
        (map (\<lambda>(index, file).
                step_obj (''analysis-'' @ show_nat (index + 1))
                  (''Investigate '' @ path file)
                  (''Document the responsibilities of '' @ path file
                     @ '' and capture edge-cases relevant to the task.'')
                  [path file]
                  ''Identify scope before editing to avoid regression.'')
             (enumerate 0 (analysisFiles fs))),
      phase_obj ''phase-implementation'' ''Implementation''
        ''Apply code changes guided by findings from the analysis phase.''
        (map (\<lambda>(index, file).
                step_obj (''implementation-'' @ show_nat (index + 1))
                  (''Update '' @ path file)
                  (''Perform necessary modifications in '' @ path file
                     @ '' to address the task requirements.'')
                  [path file]
                  ''Implement solution incrementally across impacted files.'')
             (enumerate 0 (implementationFiles fs))
         @ [step_obj ''implementation-cross-cutting'' ''Share learnings across modules''
              ''Propagate shared updates (types, utilities) discovered during implementation.''
              []
              ''Capture shared follow-up tasks uncovered during implementation.'']),
      phase_obj ''phase-validation'' ''Validation & Verification''
        ''Ensure the solution meets requirements and quality gates.''
        (map (\<lambda>(index, file).
                step_obj (''validation-'' @ show_nat (index + 1))
                  (''Review '' @ path file)
                  (''Cross-check '' @ path file
                     @ '' for alignment with the new implementation plan.'')
                  [path file]
                  ''Ensure downstream consumers align with the updated behaviour.'')
             (enumerate 0 (verificationFiles fs))
         @ [step_obj ''validation-testing'' ''Execute test & lint suite''
              ''Run automated tests, linting, and manual smoke tests as applicable.''
              [''package.json'']
              ''Maintain quality gates to catch regressions early.''])]"

text \<open>
  \<^verbatim>\<open>createFallbackPlan\<close>; \<open>isoNow\<close> is the text \<^verbatim>\<open>new Date().toISOString()\<close> returns when the
  function runs. The object literal has no \<^verbatim>\<open>rawPlan\<close> property.
\<close>

definition createFallbackPlan :: "PlanRequest \<Rightarrow> ProjectContext \<Rightarrow> string \<Rightarrow> jsval" where
  "createFallbackPlan request context isoNow =
     (let fs = slice 0 10 (files context);
          phases = (if mode request = Phase then createPhasedPlan fs else [createSinglePhase fs])
      in JObj [(''task'', JStr (task request)),
               (''mode'', JStr (mode_text (mode request))),
               (''summary'', JStr (summary context)),
               (''generatedAt'', JStr isoNow),
               (''phases'', JArr phases)])"

section \<open>What the program asks of its platform\<close>

text \<open>
  The values the run-time system and the outside world hand to the program during one request
  are parameters of the model. Each \<^verbatim>\<open>new Date().toISOString()\<close> and each \<^verbatim>\<open>randomUUID()\<close>
  in the modelled code runs at most once per request, so a reading is named by the place
  that takes it. The outcome of the remote Gemini call is given per prompt.
\<close>

datatype site =
    PromptSite | HeuristicSite | FallbackSite | NormaliseSite
  | UserMessageSite | AssistantMessageSite | ErrorMessageSite

datatype gemini_outcome =
    RequestFails exn
  | NoCandidates
  | Candidate "string option" "exn + string"

record platform =
  JSON_parse :: "string \<Rightarrow> jsval option"
  isoTime :: "site \<Rightarrow> string"
  randomUUID :: "nat \<Rightarrow> nat option \<Rightarrow> string"
  greater :: "jsval \<Rightarrow> nat \<Rightarrow> bool"
  add :: "jsval \<Rightarrow> jsval \<Rightarrow> jsval"
  lowerCase :: "string \<Rightarrow> string"
  typeErrorMessage :: string
  syntaxErrorMessage :: string
  gemini :: "string \<Rightarrow> gemini_outcome"
  analyzeWorkspace :: "exn + ProjectContext"

text \<open>
  \<^verbatim>\<open>JSON_parse\<close> is \<^verbatim>\<open>JSON.parse\<close>, \<open>None\<close> for a SyntaxError. \<^verbatim>\<open>randomUUID pf i None\<close> is
  the identifier drawn for phase \<open>i\<close> and \<^verbatim>\<open>randomUUID pf i (Some j)\<close> the one for its step
  \<open>j\<close>. \<^verbatim>\<open>greater pf v n\<close> is \<^verbatim>\<open>v > n\<close> and \<^verbatim>\<open>add pf a b\<close> is \<^verbatim>\<open>a + b\<close> on values that are
  not lengths the program computed itself and that convert to a primitive; \<^verbatim>\<open>lowerCase\<close> is
  \<^verbatim>\<open>String.prototype.toLowerCase\<close>, with the case mapping of Unicode; \<^verbatim>\<open>typeErrorMessage\<close> and
  \<^verbatim>\<open>syntaxErrorMessage\<close> are the messages of the engine's TypeError and of the SyntaxError of
  \<^verbatim>\<open>JSON.parse\<close>.
  \<^verbatim>\<open>RequestFails e\<close> is a request that throws \<open>e\<close>; \<^verbatim>\<open>NoCandidates\<close> a response without
  candidates; \<^verbatim>\<open>Candidate r t\<close> a first candidate with finish reason \<open>r\<close> (if any) whose
  \<^verbatim>\<open>response.text()\<close> returns or throws as \<open>t\<close> says. \<^verbatim>\<open>analyzeWorkspace\<close> is the outcome
  of the workspace scan.
\<close>

text \<open>
  The \<^verbatim>\<open>length\<close> of a string counts UTF-16 code units: one for every character, and two for a
  character outside the basic plane, whose encoding in UTF-8 starts with a byte from
  \<^verbatim>\<open>0xF0\<close> on. The bytes \<^verbatim>\<open>0x80\<close> to \<^verbatim>\<open>0xBF\<close> continue a character.
\<close>

definition stringLength :: "string \<Rightarrow> nat" where
  "stringLength s =
     length (filter (\<lambda>c. (of_char c :: nat) < 128 \<or> 192 \<le> (of_char c :: nat)) s)
     + length (filter (\<lambda>c. 240 \<le> (of_char c :: nat)) s)"

text \<open>
  A number the program reads off a value: the length of an array or a string, which it counts
  itself, or whatever a \<^verbatim>\<open>length\<close> property holds. A comparison or a sum first converts such
  a property to a primitive.
\<close>

datatype jsnum = Count nat | Val jsval

fun lengthOf :: "jsval \<Rightarrow> jsnum" where
  "lengthOf (JArr xs) = Count (length xs)"
| "lengthOf (JStr s) = Count (stringLength s)"
| "lengthOf v = Val (field v ''length'')"

fun numGt :: "platform \<Rightarrow> jsnum \<Rightarrow> nat \<Rightarrow> exn + bool" where
  "numGt pf (Count n) k = Inr (k < n)"
| "numGt pf (Val v) k = (if stringable v then Inr (greater pf v k) else Inl TypeError)"

fun numIsZero :: "jsnum \<Rightarrow> bool" where
  "numIsZero (Count n) = (n = 0)"
| "numIsZero (Val v) = (v = JNum ''0'')"

fun numVal :: "jsnum \<Rightarrow> jsval" where
  "numVal (Count n) = JNum (show_nat n)"
| "numVal (Val v) = v"

fun numPlus :: "platform \<Rightarrow> jsnum \<Rightarrow> jsnum \<Rightarrow> exn + jsnum" where
  "numPlus pf (Count a) (Count b) = Inr (Count (a + b))"
| "numPlus pf a b =
     (if stringable (numVal a) \<and> stringable (numVal b)
      then Inr (Val (add pf (numVal a) (numVal b))) else Inl TypeError)"

definition numText :: "jsnum \<Rightarrow> exn + string" where
  "numText n = toText (numVal n)"

text \<open>The first exception of a left-to-right evaluation ends it.\<close>

fun sequenceE :: "(exn + 'a) list \<Rightarrow> exn + 'a list" where
  "sequenceE [] = Inr []"
| "sequenceE (Inl e # rs) = Inl e"
| "sequenceE (Inr x # rs) = (case sequenceE rs of Inl e \<Rightarrow> Inl e | Inr xs \<Rightarrow> Inr (x # xs))"

section \<open>The plan normalizer (PlanGenerator.ts)\<close>

fun typeof_object :: "jsval \<Rightarrow> bool" where
  "typeof_object JNull = True"
| "typeof_object (JArr xs) = True"
| "typeof_object (JObj kvs) = True"
| "typeof_object v = False"

fun isArray :: "jsval \<Rightarrow> bool" where
  "isArray (JArr xs) = True"
| "isArray v = False"

text \<open>\<^verbatim>\<open>tryParsePlan\<close>; the result \<^verbatim>\<open>undefined\<close> is \<^const>\<open>JUndefined\<close>.\<close>

definition tryParsePlan :: "platform \<Rightarrow> string \<Rightarrow> jsval" where
  "tryParsePlan pf raw =
     (case JSON_parse pf raw of
        None \<Rightarrow> JUndefined
      | Some parsed \<Rightarrow>
          if truthy parsed \<and> typeof_object parsed \<and> isArray (field parsed ''phases'')
          then parsed else JUndefined)"

definition ensureStep :: "platform \<Rightarrow> nat \<Rightarrow> nat \<Rightarrow> jsval \<Rightarrow> exn + jsval" where
  "ensureStep pf i j step =
     (if nullish step then Inl TypeError
      else Inr (JObj
        [(''id'', coalesce (field step ''id'') (JStr (randomUUID pf i (Some j)))),
         (''title'', coalesce (field step ''title'') (JStr ''Untitled Step'')),
         (''description'', coalesce (field step ''description'') (JStr [])),
         (''references'', coalesce (field step ''references'') (JArr [])),
         (''reasoning'', field step ''reasoning''),
         (''estimatedEffort'', field step ''estimatedEffort'')]))"

text \<open>
  \<^verbatim>\<open>ensurePhaseStructure\<close>, for the phase at index \<open>i\<close>. Reading a property of \<^verbatim>\<open>null\<close> throws,
  and so does \<^verbatim>\<open>.map\<close> on a \<^verbatim>\<open>steps\<close> value that is not an array.
\<close>

definition ensurePhaseStructure :: "platform \<Rightarrow> nat \<Rightarrow> jsval \<Rightarrow> exn + jsval" where
  "ensurePhaseStructure pf i phase =
     (if nullish phase then Inl TypeError
      else (case coalesce (field phase ''steps'') (JArr []) of
              JArr ss \<Rightarrow>
                (case sequenceE (map (\<lambda>(j, step). ensureStep pf i j step) (enumerate 0 ss)) of
                   Inl e \<Rightarrow> Inl e
                 | Inr steps \<Rightarrow> Inr (JObj
                     [(''id'', coalesce (field phase ''id'') (JStr (randomUUID pf i None))),
                      (''title'', coalesce (field phase ''title'') (JStr ''Untitled Phase'')),
                      (''summary'', coalesce (field phase ''summary'') (JStr [])),
                      (''steps'', JArr steps)]))
            | other \<Rightarrow> Inl TypeError))"

text \<open>
  \<^verbatim>\<open>normalisePlan\<close>. A string response is parsed; any other response is the plan itself.
  When the phases are missing or empty the plan receives the fallback's phases, which a
  primitive value cannot hold; the value then mapped must be an array.
\<close>

definition normalisePlan :: "platform \<Rightarrow> jsval \<Rightarrow> PlanRequest \<Rightarrow> ProjectContext \<Rightarrow> exn + jsval" where
  "normalisePlan pf response request context =
     (let plan = (case response of JStr raw \<Rightarrow> tryParsePlan pf raw | other \<Rightarrow> response)
      in if \<not> truthy plan then Inr (createFallbackPlan request context (isoTime pf FallbackSite))
         else
           let given = field plan ''phases'';
               phases =
                 (if \<not> truthy given \<or> numIsZero (lengthOf given)
                  then (if typeof_object plan
                        then field (createFallbackPlan request context (isoTime pf FallbackSite))
                               ''phases''
                        else JUndefined)
                  else given)
           in (case phases of
                 JArr ps \<Rightarrow>
                   (case sequenceE (map (\<lambda>(i, phase). ensurePhaseStructure pf i phase)
                                      (enumerate 0 ps)) of
                      Inl e \<Rightarrow> Inl e
                    | Inr phases' \<Rightarrow> Inr (JObj
                        [(''task'', js_or (field plan ''task'') (JStr (task request))),
                         (''mode'', js_or (field plan ''mode'') (JStr (mode_text (mode request)))),
                         (''summary'', js_or (field plan ''summary'') (JStr (summary context))),
                         (''generatedAt'',
                            js_or (field plan ''generatedAt'') (JStr (isoTime pf NormaliseSite))),
                         (''phases'', JArr phases'),
                         (''rawPlan'', field plan ''rawPlan'')]))
               | other \<Rightarrow> Inl TypeError))"

section \<open>Markdown rendering and the prompt (PlanGenerator.ts)\<close>

text \<open>
  The text that the loop body of \<^verbatim>\<open>toMarkdown\<close> appends for one step: the heading with the
  title, the description, the references when \<^verbatim>\<open>references.length > 0\<close> (\<^verbatim>\<open>.map\<close> needs an
  array), and the reasoning when it is truthy.
\<close>

definition stepMarkdown :: "platform \<Rightarrow> jsval \<Rightarrow> exn + string" where
  "stepMarkdown pf step =
     (if nullish step then Inl TypeError
      else
        bindE (toText (field step ''title'')) (\<lambda>title.
        bindE (toText (field step ''description'')) (\<lambda>description.
        let refs = field step ''references''
        in if nullish refs then Inl TypeError
           else
             bindE (numGt pf (lengthOf refs) 0) (\<lambda>more.
             bindE (if more
                    then (case refs of
                            JArr rs \<Rightarrow>
                              bindE (sequenceE (map toText rs)) (\<lambda>ls.
                                Inr (''References:'' @ NL
                                     @ join NL (map (\<lambda>l. ''- '' @ l) ls) @ NL @ NL))
                          | other \<Rightarrow> Inl TypeError)
                    else Inr []) (\<lambda>references.
             bindE (if truthy (field step ''reasoning'')
                    then bindE (toText (field step ''reasoning'')) (\<lambda>r.
                           Inr (''Reasoning: '' @ r @ NL @ NL))
                    else Inr []) (\<lambda>reasoning.
             Inr (''### '' @ title @ NL @ description @ NL @ NL
                  @ references @ reasoning)))))))"

text \<open>The text appended for one phase: its heading and summary, and its steps when it has any.\<close>

definition phaseMarkdown :: "platform \<Rightarrow> jsval \<Rightarrow> exn + string" where
  "phaseMarkdown pf phase =
     (if nullish phase then Inl TypeError
      else
        bindE (toText (field phase ''title'')) (\<lambda>title.
        bindE (toText (field phase ''summary'')) (\<lambda>text.
        let steps = field phase ''steps''
        in if nullish steps then Inl TypeError
           else
             bindE (numGt pf (lengthOf steps) 0) (\<lambda>more.
             bindE (if more
                    then (case steps of
                            JArr ss \<Rightarrow> sequenceE (map (stepMarkdown pf) ss)
                          | other \<Rightarrow> Inl TypeError)
                    else Inr []) (\<lambda>mds.
             Inr (''## '' @ title @ NL @ text @ NL @ NL @ concat mds))))))"

text \<open>
  \<^verbatim>\<open>toMarkdown\<close>, of a plan that is an object. The loop over \<^verbatim>\<open>plan.phases\<close> needs an iterable:
  an array, or a string, whose characters have no \<^verbatim>\<open>steps\<close>.
\<close>

definition toMarkdown :: "platform \<Rightarrow> jsval \<Rightarrow> exn + string" where
  "toMarkdown pf plan =
     bindE (toText (field plan ''task'')) (\<lambda>heading.
     bindE (if truthy (field plan ''summary'')
            then bindE (toText (field plan ''summary'')) (\<lambda>text.
                   Inr (''## Overview'' @ NL @ text @ NL @ NL))
            else Inr []) (\<lambda>overview.
     bindE (case field plan ''phases'' of
              JArr ps \<Rightarrow> sequenceE (map (phaseMarkdown pf) ps)
            | JStr s \<Rightarrow> (if s = [] then Inr [] else Inl TypeError)
            | other \<Rightarrow> Inl TypeError) (\<lambda>mds.
     Inr (''# Implementation Plan: '' @ heading @ NL @ NL @ overview @ concat mds))))"

text \<open>\<^verbatim>\<open>task.replace(/"/g, '\\"')\<close>: a backslash before every double quote.\<close>

definition escapeQuotes :: "string \<Rightarrow> string" where
  \<open>escapeQuotes s = concat (map (\<lambda>c. if c = CHR 0x22 then [CHR 0x5C, CHR 0x22] else [c]) s)\<close>

definition promptLinesBefore :: "PlanRequest \<Rightarrow> ProjectContext \<Rightarrow> ScannedFile list \<Rightarrow> string list" where
  \<open>promptLinesBefore request context fs =
     [''You are Traycer, an expert software planning assistant. Generate a detailed implementation plan for the following task.'',
      [],
      ''Task: '' @ task request,
      [],
      ''Project Context:'',
      summary context,
      [],
      ''Technology Stack:'',
      join '', '' (techStack context),
      [],
      ''Relevant Files:'',
      join NL (map (\<lambda>f. ''- '' @ path f @ '' ('' @ language f @ '')'') fs),
      [],
      ''CRITICAL: You must respond with ONLY valid JSON. No explanations, no markdown, no code blocks.'',
      [],
      ''Generate a plan using this exact JSON structure:'',
      ''{'',
      ''    "task": "'' @ escapeQuotes (task request) @ ''",'',
      ''    "mode": "'' @ mode_text (mode request) @ ''",'',
      ''    "summary": "Brief overview of the approach (2-3 sentences)",'']\<close>

definition promptLinesAfter :: "string list" where
  \<open>promptLinesAfter =
     [''    "phases": ['',
      ''        {'',
      ''            "id": "phase-analysis",'',
      ''            "title": "Analysis Phase",'',
      ''            "summary": "What will be analyzed and why",'',
      ''            "steps": ['',
      ''                {'',
      ''                    "id": "step-1",'',
      ''                    "title": "Step Title",'',
      ''                    "description": "Detailed step description",'',
      ''                    "references": ["file/paths/involved"],'',
      ''                    "reasoning": "Why this step is necessary",'',
      ''                    "estimatedEffort": "Low"'',
      ''                }'',
      ''            ]'',
      ''        }'',
      ''    ]'',
      ''}'',
      [],
      ''Requirements:'',
      ''1. Include at least 3 phases: Analysis, Implementation, and Validation'',
      ''2. Each phase should have 2-4 steps'',
      ''3. Reference actual files from the workspace in the "references" array'',
      ''4. Provide clear reasoning for each step'',
      ''5. Use proper JSON string escaping (escape quotes and newlines)'',
      ''6. estimatedEffort must be one of: "Low", "Medium", "High"'',
      ''7. keep each point small. Do not write large paragraphs.'',
      [],
      ''IMPORTANT: Return ONLY the JSON object. Do not wrap it in markdown code blocks or include any other text.'']\<close>

text \<open>
  \<^verbatim>\<open>buildPlanPrompt\<close>; \<open>isoNow\<close> is what \<^verbatim>\<open>new Date().toISOString()\<close> returns while the template
  is evaluated.
\<close>

definition buildPlanPrompt :: "PlanRequest \<Rightarrow> ProjectContext \<Rightarrow> ScannedFile list \<Rightarrow> string \<Rightarrow> string" where
  \<open>buildPlanPrompt request context fs isoNow =
     unlines (promptLinesBefore request context fs
              @ [''    "generatedAt": "'' @ isoNow @ ''",'']
              @ promptLinesAfter)\<close>

section \<open>The backend adapter (LLMService.ts)\<close>

subsection \<open>String operations\<close>

text \<open>\<^verbatim>\<open>s.includes(sub)\<close>.\<close>

fun js_includes :: "string \<Rightarrow> string \<Rightarrow> bool" where
  "js_includes sub [] = (sub = [])"
| "js_includes sub (c # cs) = (prefix sub (c # cs) \<or> js_includes sub cs)"

text \<open>
  \<^verbatim>\<open>s.split(sep)\<close> for a non-empty separator: the text is cut at every occurrence of the
  separator, found from left to right, the search resuming after each occurrence.
\<close>

function split_from :: "string \<Rightarrow> string \<Rightarrow> string \<Rightarrow> string list" where
  "split_from sep acc [] = [rev acc]"
| "split_from sep acc (c # cs) =
     (if sep \<noteq> [] \<and> prefix sep (c # cs)
      then rev acc # split_from sep [] (drop (length sep) (c # cs))
      else split_from sep (c # acc) cs)"
  by pat_completeness auto
termination
  by (relation "measure (\<lambda>(sep, acc, s). length s)") auto

definition js_split :: "string \<Rightarrow> string \<Rightarrow> string list" where
  "js_split sep s = split_from sep [] s"

text \<open>\<^verbatim>\<open>xs[n]\<close>: \<open>None\<close> is \<^verbatim>\<open>undefined\<close>, on which the next method call throws.\<close>

definition item :: "'a list \<Rightarrow> nat \<Rightarrow> 'a option" where
  "item xs n = (if n < length xs then Some (xs ! n) else None)"

text \<open>
  The white space and the line terminators of the language, which \<^verbatim>\<open>trim\<close> removes and
  \<^verbatim>\<open>\s\<close> matches, each in UTF-8: tab, line feed, vertical tab, form feed, carriage return,
  space, U+00A0, U+1680, U+2000 to U+200A, U+2028, U+2029, U+202F, U+205F, U+3000 and U+FEFF.
\<close>

definition whiteSpace :: "string list" where
  "whiteSpace =
     [[CHR 0x09], [CHR 0x0A], [CHR 0x0B], [CHR 0x0C], [CHR 0x0D], [CHR 0x20],
      [CHR 0xC2, CHR 0xA0],
      [CHR 0xE1, CHR 0x9A, CHR 0x80],
      [CHR 0xE2, CHR 0x80, CHR 0x80], [CHR 0xE2, CHR 0x80, CHR 0x81],
      [CHR 0xE2, CHR 0x80, CHR 0x82], [CHR 0xE2, CHR 0x80, CHR 0x83],
      [CHR 0xE2, CHR 0x80, CHR 0x84], [CHR 0xE2, CHR 0x80, CHR 0x85],
      [CHR 0xE2, CHR 0x80, CHR 0x86], [CHR 0xE2, CHR 0x80, CHR 0x87],
      [CHR 0xE2, CHR 0x80, CHR 0x88], [CHR 0xE2, CHR 0x80, CHR 0x89],
      [CHR 0xE2, CHR 0x80, CHR 0x8A],
      [CHR 0xE2, CHR 0x80, CHR 0xA8], [CHR 0xE2, CHR 0x80, CHR 0xA9],
      [CHR 0xE2, CHR 0x80, CHR 0xAF],
      [CHR 0xE2, CHR 0x81, CHR 0x9F],
      [CHR 0xE3, CHR 0x80, CHR 0x80],
      [CHR 0xEF, CHR 0xBB, CHR 0xBF]]"

text \<open>The text without the characters of \<open>ws\<close> that it starts with.\<close>

function dropLeading :: "string list \<Rightarrow> string \<Rightarrow> string" where
  "dropLeading ws s =
     (case find (\<lambda>w. w \<noteq> [] \<and> prefix w s) ws of
        None \<Rightarrow> s
      | Some w \<Rightarrow> dropLeading ws (drop (length w) s))"
  by pat_completeness auto
termination
  by (relation "measure (\<lambda>(ws, s). length s)") (auto simp add: find_Some_iff prefix_def)

declare dropLeading.simps [simp del]

text \<open>
  \<^verbatim>\<open>s.trim()\<close>: the white space is removed at the start, and at the end by reading the text
  and the encodings backwards.
\<close>

definition trim :: "string \<Rightarrow> string" where
  "trim s = rev (dropLeading (map rev whiteSpace) (rev (dropLeading whiteSpace s)))"



text \<open>
  \<^verbatim>\<open>text.match(/\{[\s\S]*\}/)\<close>: the text from the first opening brace to the last closing
  brace after it, when there is one.
\<close>

definition matchBraces :: "string \<Rightarrow> string option" where
  "matchBraces s =
     (case dropWhile (\<lambda>c. c \<noteq> CHR ''{'') s of
        [] \<Rightarrow> None
      | b # rest \<Rightarrow>
          (case rev (dropWhile (\<lambda>c. c \<noteq> CHR ''}'') (rev rest)) of
             [] \<Rightarrow> None
           | r # rs \<Rightarrow> Some (b # r # rs)))"

text \<open>
  \<^verbatim>\<open>JSON.stringify\<close> of a string: quotes, with the escapes of the standard. Characters
  above ASCII are kept as they are.
\<close>

definition hexdigit :: "nat \<Rightarrow> char" where
  "hexdigit d = ''0123456789abcdef'' ! d"

definition quoteChar :: "char \<Rightarrow> string" where
  "quoteChar c =
     (if c = CHR 0x22 then [CHR 0x5C, CHR 0x22]
      else if c = CHR 0x5C then [CHR 0x5C, CHR 0x5C]
      else if c = CHR 0x08 then [CHR 0x5C, CHR ''b'']
      else if c = CHR 0x0C then [CHR 0x5C, CHR ''f'']
      else if c = CHR 0x0A then [CHR 0x5C, CHR ''n'']
      else if c = CHR 0x0D then [CHR 0x5C, CHR ''r'']
      else if c = CHR 0x09 then [CHR 0x5C, CHR ''t'']
      else if (of_char c :: nat) < 32
      then [CHR 0x5C, CHR ''u'', CHR ''0'', CHR ''0'',
            hexdigit ((of_char c :: nat) div 16), hexdigit ((of_char c :: nat) mod 16)]
      else [c])"

definition json_quote :: "string \<Rightarrow> string" where
  "json_quote s = [CHR 0x22] @ concat (map quoteChar s) @ [CHR 0x22]"

subsection \<open>The service\<close>

text \<open>
  Of the configuration, the provider and the API key decide what the service does; the model
  name and the sampling parameters only go into the remote request. \<^verbatim>\<open>sessionReady\<close> says
  that the chat session and the model are both set.
\<close>

record LLMConfig =
  provider :: string
  apiKey :: "string option"

record LLMService =
  config :: LLMConfig
  sessionReady :: bool

text \<open>The removal of Markdown fences in \<^verbatim>\<open>sendMessage\<close>.\<close>

definition stripFences :: "string \<Rightarrow> exn + string" where
  "stripFences text =
     (if js_includes ''```json'' text
      then (case item (js_split ''```json'' text) 1 of
              None \<Rightarrow> Inl TypeError
            | Some a \<Rightarrow>
                (case item (js_split ''```'' a) 0 of
                   None \<Rightarrow> Inl TypeError
                 | Some b \<Rightarrow> Inr (trim b)))
      else if js_includes ''```'' text
      then (case item (js_split ''```'' text) 1 of
              None \<Rightarrow> Inl TypeError
            | Some a \<Rightarrow> Inr (trim a))
      else Inr text)"

text \<open>The direct parse and the recovery of a braced block, at the end of \<^verbatim>\<open>sendMessage\<close>.\<close>

definition parseOrRecover :: "platform \<Rightarrow> string \<Rightarrow> exn + string" where
  "parseOrRecover pf text =
     (case JSON_parse pf text of
        Some v \<Rightarrow> Inr text
      | None \<Rightarrow>
          (case matchBraces text of
             Some m \<Rightarrow>
               (case JSON_parse pf m of
                  Some v \<Rightarrow> Inr m
                | None \<Rightarrow> Inl (Error ''Gemini response contains malformed JSON''))
           | None \<Rightarrow> Inl (Error ''Gemini response is not valid JSON'')))"

text \<open>The text of the first candidate, or the error of a blocked or empty response.\<close>

definition responseText :: "gemini_outcome \<Rightarrow> exn + string" where
  "responseText outcome =
     (case outcome of
        RequestFails e \<Rightarrow> Inl e
      | NoCandidates \<Rightarrow> Inl (Error ''Gemini response blocked or missing candidates'')
      | Candidate reason t \<Rightarrow>
          (case reason of
             Some r \<Rightarrow>
               if r \<noteq> [] \<and> r \<noteq> ''STOP''
               then Inl (Error (''Gemini response blocked: '' @ r))
               else (case t of
                       Inl e \<Rightarrow> Inl (Error ''Failed to extract text from Gemini response'')
                     | Inr raw \<Rightarrow>
                         if trim raw = [] then Inl (Error ''Gemini response missing content'')
                         else Inr (trim raw))
           | None \<Rightarrow>
               (case t of
                  Inl e \<Rightarrow> Inl (Error ''Failed to extract text from Gemini response'')
                | Inr raw \<Rightarrow>
                    if trim raw = [] then Inl (Error ''Gemini response missing content'')
                    else Inr (trim raw))))"

text \<open>The body of the \<^verbatim>\<open>try\<close> block of \<^verbatim>\<open>sendMessage\<close>.\<close>

definition sendMessageTry :: "platform \<Rightarrow> string \<Rightarrow> exn + string" where
  "sendMessageTry pf prompt =
     (case responseText (gemini pf prompt) of
        Inl e \<Rightarrow> Inl e
      | Inr text \<Rightarrow>
          (case stripFences text of
             Inl e \<Rightarrow> Inl e
           | Inr stripped \<Rightarrow> parseOrRecover pf stripped))"

definition sendMessage :: "platform \<Rightarrow> LLMService \<Rightarrow> string \<Rightarrow> exn + string" where
  "sendMessage pf svc prompt =
     (if \<not> sessionReady svc
      then Inl (Error
        ''Gemini chat session not initialized. Check API key and provider configuration.'')
      else (case sendMessageTry pf prompt of
              Inl e \<Rightarrow> Inl (Error ''Failed to generate content with Gemini'')
            | Inr text \<Rightarrow> Inr text))"

definition sendConversationalMessage :: "platform \<Rightarrow> LLMService \<Rightarrow> string \<Rightarrow> exn + string" where
  "sendConversationalMessage pf svc prompt =
     (if \<not> sessionReady svc
      then Inl (Error
        ''Gemini chat session not initialized. Check API key and provider configuration.'')
      else (case responseText (gemini pf prompt) of
              Inl e \<Rightarrow> Inl (Error ''Failed to generate conversational response with Gemini'')
            | Inr text \<Rightarrow> Inr text))"

definition heuristicPlan :: "PlanRequest \<Rightarrow> ProjectContext \<Rightarrow> string \<Rightarrow> jsval" where
  \<open>heuristicPlan request context isoNow =
     JObj
       [(''task'', JStr (task request)),
        (''mode'', JStr (mode_text (mode request))),
        (''summary'', JStr (''Heuristic plan for "'' @ task request
                            @ ''" (provider not configured or LLM failed).'')),
        (''generatedAt'', JStr isoNow),
        (''phases'', JArr
           [JObj
              [(''id'', JStr ''fallback-phase''),
               (''title'', JStr ''Fallback Plan''),
               (''summary'', JStr ''This is a heuristic plan generated without LLM assistance.''),
               (''steps'', JArr
                  [JObj
                     [(''id'', JStr ''step-1''),
                      (''title'', JStr ''Analyze project context''),
                      (''description'',
                         JStr (''Review project files under '' @ rootPath context @ ''.'')),
                      (''references'', JArr (map JStr (techStack context))),
                      (''reasoning'', JStr
                         ''This plan was generated heuristically to provide minimal guidance.''),
                      (''estimatedEffort'', JStr ''Low'')],
                   JObj
                     [(''id'', JStr ''step-2''),
                      (''title'', JStr ''Refine requirements''),
                      (''description'', JStr
                         ''Manually define objectives and constraints for the next planning attempt.''),
                      (''references'', JArr []),
                      (''estimatedEffort'', JStr ''Medium'')]])]]),
        (''rawPlan'', JStr (unlines
           [''{'',
            ''  "note": "Fallback plan generated due to missing or failed LLM response",'',
            ''  "mode": '' @ json_quote (mode_text (mode request)) @ '','',
            ''  "contextSummary": '' @ json_quote (summary context),
            ''}'']))]\<close>

definition invokeOpenAI :: string where
  \<open>invokeOpenAI = ''{"message":"OpenAI not yet implemented"}''\<close>

definition invokeAnthropic :: string where
  \<open>invokeAnthropic = ''{"message":"Anthropic not yet implemented"}''\<close>

text \<open>
  \<^verbatim>\<open>LLMService.generatePlan\<close>: the heuristic plan, an object, or the text of a provider.
  \<^verbatim>\<open>!apiKey\<close> holds for a missing and for an empty key.
\<close>

definition LLMService_generatePlan ::
  "platform \<Rightarrow> LLMService \<Rightarrow> PlanRequest \<Rightarrow> ProjectContext \<Rightarrow> string \<Rightarrow> exn + jsval" where
  "LLMService_generatePlan pf svc request context prompt =
     (if apiKey (config svc) = None \<or> apiKey (config svc) = Some []
         \<or> provider (config svc) = ''mock''
      then Inr (heuristicPlan request context (isoTime pf HeuristicSite))
      else if provider (config svc) = ''openai'' then Inr (JStr invokeOpenAI)
      else if provider (config svc) = ''anthropic'' then Inr (JStr invokeAnthropic)
      else if provider (config svc) = ''gemini''
      then (case sendMessage pf svc prompt of
              Inl e \<Rightarrow> Inr (heuristicPlan request context (isoTime pf HeuristicSite))
            | Inr text \<Rightarrow> Inr (JStr text))
      else Inr (heuristicPlan request context (isoTime pf HeuristicSite)))"

section \<open>Plan generation (PlanGenerator.ts)\<close>

text \<open>
  \<^verbatim>\<open>PlanGenerator.generatePlan\<close>: the prompt over the first ten files, the backend, the
  normalizer, and \<^verbatim>\<open>plan.rawPlan = plan.rawPlan ?? this.toMarkdown(plan)\<close>.
\<close>

definition generatePlan ::
  "platform \<Rightarrow> LLMService \<Rightarrow> PlanRequest \<Rightarrow> ProjectContext \<Rightarrow> exn + jsval" where
  "generatePlan pf svc request context =
     (let relevantFiles = slice 0 10 (files context);
          prompt = buildPlanPrompt request context relevantFiles (isoTime pf PromptSite)
      in (case LLMService_generatePlan pf svc request context prompt of
            Inl e \<Rightarrow> Inl e
          | Inr llmResponse \<Rightarrow>
              (case normalisePlan pf llmResponse request context of
                 Inl e \<Rightarrow> Inl e
               | Inr plan \<Rightarrow>
                   if nullish (field plan ''rawPlan'')
                   then (case toMarkdown pf plan of
                           Inl e \<Rightarrow> Inl e
                         | Inr md \<Rightarrow> Inr (put plan ''rawPlan'' (JStr md)))
                   else Inr plan)))"

section \<open>The chat session (SidebarProvider.ts)\<close>

datatype Role = User | Assistant

record ChatMessage =
  role :: Role
  content :: string
  timestamp :: string
  plan :: "jsval option"

datatype ui_event = AddMessage ChatMessage | Typing bool

text \<open>
  The fields of the provider that a chat message reads and writes, and the messages posted to
  the web view, oldest first. The current-plan slot holds \<^verbatim>\<open>undefined\<close> until a plan is set.
\<close>

record session =
  conversationHistory :: "ChatMessage list"
  currentPlan :: jsval
  projectContext :: "ProjectContext option"
  posted :: "ui_event list"
  llmService :: LLMService

subsection \<open>The patterns of the intent classifier\<close>

definition isWordChar :: "char \<Rightarrow> bool" where
  "isWordChar c =
     (c \<in> set ''abcdefghijklmnopqrstuvwxyzABCDEFGHIJKLMNOPQRSTUVWXYZ0123456789_'')"

text \<open>
  The case folding of a pattern with the flag \<^verbatim>\<open>i\<close> and without the flag \<^verbatim>\<open>u\<close>, as far as a
  pattern of ASCII letters can see it: a letter of ASCII matches in either case, and no
  character outside ASCII matches a letter of ASCII.
\<close>

definition lower :: "char \<Rightarrow> char" where
  "lower c =
     (if c \<in> set ''ABCDEFGHIJKLMNOPQRSTUVWXYZ'' then char_of ((of_char c :: nat) + 32) else c)"

text \<open>
  \<^verbatim>\<open>/\b(w1|...|wn)\b/i.test(s)\<close> for alternatives in lower case that begin and end with a
  letter: one of them stands at some place of the text, ignoring case, with no word character
  right before or right after. The word characters are the letters and digits of ASCII and
  the underscore.
\<close>

definition wordAt :: "string list \<Rightarrow> string \<Rightarrow> bool" where
  "wordAt ws s =
     (\<exists>w \<in> set ws. prefix w (map lower s)
         \<and> (length s = length w \<or> \<not> isWordChar (s ! length w)))"

fun wordSearch :: "string list \<Rightarrow> bool \<Rightarrow> string \<Rightarrow> bool" where
  "wordSearch ws afterWord [] = False"
| "wordSearch ws afterWord (c # cs) =
     ((\<not> afterWord \<and> wordAt ws (c # cs)) \<or> wordSearch ws (isWordChar c) cs)"

definition regexTest :: "string list \<Rightarrow> string \<Rightarrow> bool" where
  "regexTest ws s = wordSearch ws False s"

definition editVerbs :: "string list" where
  "editVerbs = [''modify'', ''change'', ''update'', ''edit'', ''revise'', ''refine'', ''adjust'',
     ''improve'', ''add'', ''remove'', ''reduce'', ''increase'', ''expand'', ''simplify'']"

definition planNouns :: "string list" where
  "planNouns = [''plan'', ''phase'', ''step'', ''detail'']"

definition createVerbs :: "string list" where
  "createVerbs = [''create'', ''generate'', ''make'', ''new'', ''build'', ''implement'', ''develop'']"

text \<open>
  \<^verbatim>\<open>detailed|multi[-\s]?phase|phases\<close>, the optional separator written out: a hyphen, a
  white-space character, or nothing.
\<close>

definition detailWords :: "string list" where
  "detailWords = [''detailed'']
     @ map (\<lambda>sep. ''multi'' @ sep @ ''phase'') ([[CHR ''-'']] @ whiteSpace @ [[]])
     @ [''phases'']"

definition quickWords :: "string list" where
  "quickWords = [''quick'', ''simple'', ''fast'']"

subsection \<open>The three kinds of answer\<close>

definition exnMessage :: "platform \<Rightarrow> exn \<Rightarrow> string" where
  "exnMessage pf e =
     (case e of
        Error m \<Rightarrow> m
      | TypeError \<Rightarrow> typeErrorMessage pf
      | SyntaxError \<Rightarrow> syntaxErrorMessage pf)"

text \<open>UTF-8 of the three pictographs in the chat texts: clipboard, memo and cross mark.\<close>

definition clipboardSign :: string where
  "clipboardSign = [CHR 0xF0, CHR 0x9F, CHR 0x93, CHR 0x8B]"

definition memoSign :: string where
  "memoSign = [CHR 0xF0, CHR 0x9F, CHR 0x93, CHR 0x9D]"

definition crossMark :: string where
  "crossMark = [CHR 0xE2, CHR 0x9D, CHR 0x8C]"

text \<open>\<^verbatim>\<open>xs.join(sep)\<close> on values: \<^verbatim>\<open>null\<close> and \<^verbatim>\<open>undefined\<close> give the empty string.\<close>

definition joinValues :: "string \<Rightarrow> jsval list \<Rightarrow> exn + string" where
  "joinValues sep vs =
     bindE (sequenceE (map (\<lambda>v. if nullish v then Inr [] else toText v) vs)) (\<lambda>ts.
     Inr (join sep ts))"

text \<open>\<^verbatim>\<open>plan.phases.map(p => p.title).join(', ')\<close>.\<close>

definition phaseTitles :: "jsval \<Rightarrow> exn + string" where
  "phaseTitles phases =
     (case phases of
        JArr ps \<Rightarrow>
          bindE (sequenceE (map (\<lambda>p. get p ''title'') ps)) (\<lambda>ts. joinValues '', '' ts)
      | other \<Rightarrow> Inl TypeError)"

text \<open>\<^verbatim>\<open>plan.phases.reduce((acc, p) => acc + p.steps.length, 0)\<close>.\<close>

fun sumSteps :: "platform \<Rightarrow> jsnum \<Rightarrow> jsval list \<Rightarrow> exn + jsnum" where
  "sumSteps pf acc [] = Inr acc"
| "sumSteps pf acc (p # ps) =
     (if nullish p \<or> nullish (field p ''steps'') then Inl TypeError
      else (case numPlus pf acc (lengthOf (field p ''steps'')) of
              Inl e \<Rightarrow> Inl e
            | Inr acc' \<Rightarrow> sumSteps pf acc' ps))"

definition stepTotal :: "platform \<Rightarrow> jsval \<Rightarrow> exn + string" where
  "stepTotal pf phases =
     (case phases of
        JArr ps \<Rightarrow>
          bindE (sumSteps pf (Count 0) ps) numText
      | other \<Rightarrow> Inl TypeError)"

text \<open>
  The two lines that both plan answers share: the number of phases with their titles, and the
  number of steps. \<open>tail\<close> is the text after the number of steps.
\<close>

definition planDigest :: "platform \<Rightarrow> jsval \<Rightarrow> string \<Rightarrow> exn + string" where
  "planDigest pf p tail =
     (if nullish p \<or> nullish (field p ''phases'') then Inl TypeError
      else
        bindE (numText (lengthOf (field p ''phases''))) (\<lambda>count.
        bindE (numGt pf (lengthOf (field p ''phases'')) 1) (\<lambda>many.
        bindE (phaseTitles (field p ''phases'')) (\<lambda>titles.
        bindE (stepTotal pf (field p ''phases'')) (\<lambda>steps.
        bindE (toText (field p ''summary'')) (\<lambda>text.
        Inr (clipboardSign @ '' **'' @ count @ '' Phase'' @ (if many then ''s'' else [])
             @ ''**: '' @ titles @ NL
             @ memoSign @ '' **'' @ steps @ tail @ NL @ NL
             @ text @ NL @ NL)))))))"

text \<open>
  \<^verbatim>\<open>generateNewPlan\<close>. The plan is stored in the current-plan slot before the answer text is
  built. The result is the answer or the exception, with the session as it then is.
\<close>

definition generateNewPlan ::
  "platform \<Rightarrow> session \<Rightarrow> string \<Rightarrow> PlanMode \<Rightarrow> (exn + string \<times> jsval option) \<times> session" where
  "generateNewPlan pf s userMessage preferredMode =
     (let m = (if regexTest detailWords userMessage then Phase
               else if regexTest quickWords userMessage then Plan
               else preferredMode)
      in (case projectContext s of
            None \<Rightarrow> (Inl TypeError, s)
          | Some context \<Rightarrow>
              (case generatePlan pf (llmService s)
                      \<lparr>task = userMessage, mode = m, hints = None\<rparr> context of
                 Inl e \<Rightarrow> (Inl e, s)
               | Inr p \<Rightarrow>
                   (case planDigest pf p '' Steps** across all phases'' of
                      Inl e \<Rightarrow> (Inl e, s\<lparr>currentPlan := p\<rparr>)
                    | Inr digest \<Rightarrow>
                        (Inr (''I've created ''
                              @ (if m = Phase then ''a detailed multi-phase'' else ''a'')
                              @ '' implementation plan for your request. The plan includes:''
                              @ NL @ NL @ digest
                              @ ''You can ask me to modify specific parts, add more details, or regenerate the plan with different requirements.'',
                              Some p),
                         s\<lparr>currentPlan := p\<rparr>)))))"

text \<open>\<^verbatim>\<open>this._conversationHistory.slice(-6)\<close>, rendered one turn per paragraph.\<close>

definition conversationContext :: "ChatMessage list \<Rightarrow> string" where
  "conversationContext history =
     join (NL @ NL)
       (map (\<lambda>msg. (if role msg = User then ''User'' else ''Assistant'') @ '': '' @ content msg)
            (drop (length history - 6) history))"

text \<open>The numbered list of the current phases in the modification prompt.\<close>

definition currentPhases :: "jsval \<Rightarrow> exn + string" where
  "currentPhases p =
     (if nullish p then Inl TypeError
      else (case field p ''phases'' of
              JArr ps \<Rightarrow>
                bindE (sequenceE
                         (map (\<lambda>(i, ph).
                                 if nullish ph then Inl TypeError
                                 else
                                   bindE (toText (field ph ''title'')) (\<lambda>title.
                                   bindE (toText (field ph ''summary'')) (\<lambda>text.
                                   Inr (show_nat (i + 1) @ ''. '' @ title @ '': '' @ text))))
                              (enumerate 0 ps))) (\<lambda>ls.
                Inr (join NL ls))
            | other \<Rightarrow> Inl TypeError))"

text \<open>
  The prompt of \<^verbatim>\<open>modifyPlan\<close>, for a current plan that is set: the summary is converted
  first, then the phases.
\<close>

definition modificationPrompt :: "session \<Rightarrow> string \<Rightarrow> exn + string" where
  "modificationPrompt s userMessage =
     bindE (toText (field (currentPlan s) ''summary'')) (\<lambda>text.
     bindE (currentPhases (currentPlan s)) (\<lambda>phaseLines.
       Inr (unlines
          [''You are modifying an existing implementation plan based on user feedback.'',
           [],
           ''Current Plan Summary:'',
           text,
           [],
           ''Current Phases:'',
           phaseLines,
           [],
           ''Conversation History:'',
           conversationContext (conversationHistory s),
           [],
           ''User's Modification Request:'',
           userMessage,
           [],
           ''Generate an UPDATED plan in JSON format that incorporates the user's requested changes while maintaining the structure of the previous plan. Make sure to address their specific modification request.'',
           [],
           ''Return ONLY valid JSON matching the PlanResult structure.''])))"

text \<open>
  \<^verbatim>\<open>modifyPlan\<close>. Nothing catches here what \<^verbatim>\<open>sendMessage\<close> or \<^verbatim>\<open>JSON.parse\<close> throws, and the
  parsed value goes into the current-plan slot as it is, before the answer text is built.
\<close>

definition modifyPlan ::
  "platform \<Rightarrow> session \<Rightarrow> string \<Rightarrow> (exn + string \<times> jsval option) \<times> session" where
  "modifyPlan pf s userMessage =
     (case modificationPrompt s userMessage of
        Inl e \<Rightarrow> (Inl e, s)
      | Inr prompt \<Rightarrow>
          (case sendMessage pf (llmService s) prompt of
             Inl e \<Rightarrow> (Inl e, s)
           | Inr llmResponse \<Rightarrow>
               (case JSON_parse pf llmResponse of
                  None \<Rightarrow> (Inl SyntaxError, s)
                | Some updatedPlan \<Rightarrow>
                    (case planDigest pf updatedPlan '' Steps** total'' of
                       Inl e \<Rightarrow> (Inl e, s\<lparr>currentPlan := updatedPlan\<rparr>)
                     | Inr digest \<Rightarrow>
                         (Inr (''I've updated the plan based on your feedback. Here's what changed:''
                               @ NL @ NL @ digest
                               @ ''Let me know if you need any other adjustments!'',
                               Some updatedPlan),
                          s\<lparr>currentPlan := updatedPlan\<rparr>)))))"

text \<open>An exception leaves the session as it is.\<close>

definition bindP ::
  "exn + 'a \<Rightarrow> session \<Rightarrow> ('a \<Rightarrow> (exn + 'b) \<times> session) \<Rightarrow> (exn + 'b) \<times> session" where
  "bindP r s f = (case r of Inl e \<Rightarrow> (Inl e, s) | Inr x \<Rightarrow> f x)"

definition handleGeneralQuery ::
  "platform \<Rightarrow> session \<Rightarrow> string \<Rightarrow> (exn + string \<times> jsval option) \<times> session" where
  "handleGeneralQuery pf s userMessage =
     bindP (if truthy (currentPlan s)
            then bindE (toText (field (currentPlan s) ''task'')) (\<lambda>heading.
                 bindE (toText (field (currentPlan s) ''summary'')) (\<lambda>text.
                 Inr (''Current Plan Context:'' @ NL @ ''Task: '' @ heading
                      @ NL @ ''Summary: '' @ text @ NL @ NL)))
            else Inr []) s (\<lambda>planContext.
     (let prompt = unlines
        [''You are Traycer, an AI planning assistant for software development. Help the user with their question about implementation planning.'',
         [],
         planContext,
         [],
         ''Conversation History:'',
         conversationContext (conversationHistory s),
         [],
         ''User Question:'',
         userMessage,
         [],
         ''Provide a helpful, concise response (plain text, not JSON). If they're asking about creating a plan, encourage them to describe their task. If they're asking about the current plan, reference specific phases or steps. Keep your response conversational and under 300 words.'']
      in (case sendConversationalMessage pf (llmService s) prompt of
            Inl e \<Rightarrow> (Inl e, s)
          | Inr text \<Rightarrow> (Inr (text, None), s))))"

definition generateResponse ::
  "platform \<Rightarrow> session \<Rightarrow> string \<Rightarrow> PlanMode \<Rightarrow> (exn + string \<times> jsval option) \<times> session" where
  "generateResponse pf s userMessage preferredMode =
     (let lowerMessage = lowerCase pf userMessage;
          isModification = (regexTest editVerbs lowerMessage \<and> regexTest planNouns lowerMessage);
          isNewPlan = (regexTest createVerbs lowerMessage \<or> \<not> truthy (currentPlan s))
      in if isModification \<and> truthy (currentPlan s) then modifyPlan pf s userMessage
         else if isNewPlan then generateNewPlan pf s userMessage preferredMode
         else handleGeneralQuery pf s userMessage)"

definition pushAndPost :: "ChatMessage \<Rightarrow> session \<Rightarrow> session" where
  "pushAndPost msg s =
     s\<lparr>conversationHistory := conversationHistory s @ [msg],
       posted := posted s @ [AddMessage msg]\<rparr>"

definition post :: "ui_event \<Rightarrow> session \<Rightarrow> session" where
  "post ev s = s\<lparr>posted := posted s @ [ev]\<rparr>"

definition userChatMessage :: "platform \<Rightarrow> string \<Rightarrow> ChatMessage" where
  "userChatMessage pf userMessage =
     \<lparr>role = User, content = userMessage, timestamp = isoTime pf UserMessageSite,
      plan = None\<rparr>"

definition errorMessage :: "platform \<Rightarrow> exn \<Rightarrow> ChatMessage" where
  "errorMessage pf e =
     \<lparr>role = Assistant, content = crossMark @ '' Error: '' @ exnMessage pf e,
      timestamp = isoTime pf ErrorMessageSite, plan = None\<rparr>"

text \<open>
  \<^verbatim>\<open>handleChatMessage\<close>: the user's message is recorded and echoed, the typing indicator goes
  on, the answer or the error message is recorded and shown, and the indicator goes off.
\<close>

definition handleChatMessage :: "platform \<Rightarrow> session \<Rightarrow> string \<Rightarrow> PlanMode option \<Rightarrow> session" where
  "handleChatMessage pf s userMessage requested =
     (if userMessage = [] \<or> trim userMessage = [] then s
      else
        let planMode = (case requested of None \<Rightarrow> Phase | Some m \<Rightarrow> m);
            s1 = post (Typing True) (pushAndPost (userChatMessage pf userMessage) s);
            scanned =
              (case projectContext s1 of
                 Some context \<Rightarrow> Inr s1
               | None \<Rightarrow>
                   (case analyzeWorkspace pf of
                      Inl e \<Rightarrow> Inl e
                    | Inr context \<Rightarrow> Inr (s1\<lparr>projectContext := Some context\<rparr>)))
        in post (Typing False)
             (case scanned of
                Inl e \<Rightarrow> pushAndPost (errorMessage pf e) s1
              | Inr s2 \<Rightarrow>
                  (case generateResponse pf s2 userMessage planMode of
                     (Inl e, s3) \<Rightarrow> pushAndPost (errorMessage pf e) s3
                   | (Inr (text, p), s3) \<Rightarrow>
                       pushAndPost \<lparr>role = Assistant, content = text,
                                    timestamp = isoTime pf AssistantMessageSite, plan = p\<rparr> s3)))"

section \<open>A reference platform\<close>

text \<open>
  The theorems below hold for every platform. To run the model on a concrete response, the
  parameters need values: \<open>refParse\<close> reads the JSON grammar on ASCII text, leaving out what
  needs Unicode or floating-point arithmetic (a \<^verbatim>\<open>\u\<close> escape, a number with a fraction, an exponent
  or more than fifteen digits), which no example below contains. The fuel bounds the depth of
  the descent and is larger than the text is long.
\<close>

fun skipWs :: "string \<Rightarrow> string" where
  "skipWs [] = []"
| "skipWs (c # cs) =
     (if c \<in> set [CHR 0x20, CHR 0x09, CHR 0x0A, CHR 0x0D] then skipWs cs else c # cs)"

definition unescape :: "char \<Rightarrow> char option" where
  "unescape e =
     (if e = CHR 0x22 then Some (CHR 0x22)
      else if e = CHR 0x5C then Some (CHR 0x5C)
      else if e = CHR ''/'' then Some (CHR ''/'')
      else if e = CHR ''b'' then Some (CHR 0x08)
      else if e = CHR ''f'' then Some (CHR 0x0C)
      else if e = CHR ''n'' then Some (CHR 0x0A)
      else if e = CHR ''r'' then Some (CHR 0x0D)
      else if e = CHR ''t'' then Some (CHR 0x09)
      else None)"

text \<open>The characters of a string literal after its opening quote, and the text after it.\<close>

fun parseChars :: "string \<Rightarrow> string \<Rightarrow> (string \<times> string) option" where
  "parseChars acc [] = None"
| "parseChars acc [c] = (if c = CHR 0x22 then Some (rev acc, []) else None)"
| "parseChars acc (c # e # cs) =
     (if c = CHR 0x22 then Some (rev acc, e # cs)
      else if c = CHR 0x5C
      then (case unescape e of None \<Rightarrow> None | Some x \<Rightarrow> parseChars (x # acc) cs)
      else if (of_char c :: nat) < 32 then None
      else parseChars (c # acc) (e # cs))"

definition isDigit :: "char \<Rightarrow> bool" where
  "isDigit c = (c \<in> set ''0123456789'')"

definition parseNumber :: "string \<Rightarrow> (jsval \<times> string) option" where
  "parseNumber s =
     (let neg = (s \<noteq> [] \<and> hd s = CHR ''-'');
          r = (if neg then tl s else s);
          ds = takeWhile isDigit r;
          rest = dropWhile isDigit r
      in if ds = [] \<or> (1 < length ds \<and> hd ds = CHR ''0'') \<or> 15 < length ds
            \<or> (rest \<noteq> [] \<and> hd rest \<in> set ''.eE'')
         then None
         else Some (JNum (if neg \<and> ds \<noteq> ''0'' then CHR ''-'' # ds else ds), rest))"

fun parseValue :: "nat \<Rightarrow> string \<Rightarrow> (jsval \<times> string) option"
  and parseElements :: "nat \<Rightarrow> jsval list \<Rightarrow> string \<Rightarrow> (jsval \<times> string) option"
  and parseMembers :: "nat \<Rightarrow> (string \<times> jsval) list \<Rightarrow> string \<Rightarrow> (jsval \<times> string) option"
where
  "parseValue 0 s = None"
| "parseValue (Suc n) s =
     (case skipWs s of
        [] \<Rightarrow> None
      | c # cs \<Rightarrow>
          if c = CHR ''{''
          then (if skipWs cs \<noteq> [] \<and> hd (skipWs cs) = CHR ''}''
                then Some (JObj [], tl (skipWs cs)) else parseMembers n [] cs)
          else if c = CHR ''[''
          then (if skipWs cs \<noteq> [] \<and> hd (skipWs cs) = CHR '']''
                then Some (JArr [], tl (skipWs cs)) else parseElements n [] cs)
          else if c = CHR 0x22
          then (case parseChars [] cs of None \<Rightarrow> None | Some (str, r) \<Rightarrow> Some (JStr str, r))
          else if prefix ''true'' (c # cs) then Some (JBool True, drop 4 (c # cs))
          else if prefix ''false'' (c # cs) then Some (JBool False, drop 5 (c # cs))
          else if prefix ''null'' (c # cs) then Some (JNull, drop 4 (c # cs))
          else parseNumber (c # cs))"
| "parseElements 0 acc s = None"
| "parseElements (Suc n) acc s =
     (case parseValue n s of
        None \<Rightarrow> None
      | Some (v, r) \<Rightarrow>
          (case skipWs r of
             [] \<Rightarrow> None
           | c # cs \<Rightarrow>
               if c = CHR '','' then parseElements n (v # acc) cs
               else if c = CHR '']'' then Some (JArr (rev (v # acc)), cs)
               else None))"
| "parseMembers 0 acc s = None"
| "parseMembers (Suc n) acc s =
     (case skipWs s of
        [] \<Rightarrow> None
      | q # r \<Rightarrow>
          if q \<noteq> CHR 0x22 then None
          else (case parseChars [] r of
                  None \<Rightarrow> None
                | Some (k, r1) \<Rightarrow>
                    (case skipWs r1 of
                       [] \<Rightarrow> None
                     | colon # r2 \<Rightarrow>
                         if colon \<noteq> CHR '':'' then None
                         else (case parseValue n r2 of
                                 None \<Rightarrow> None
                               | Some (v, r3) \<Rightarrow>
                                   (case skipWs r3 of
                                      [] \<Rightarrow> None
                                    | c # cs \<Rightarrow>
                                        if c = CHR '','' then parseMembers n (put_kv k v acc) cs
                                        else if c = CHR ''}''
                                        then Some (JObj (put_kv k v acc), cs)
                                        else None)))))"

definition refParse :: "string \<Rightarrow> jsval option" where
  "refParse s =
     (case parseValue (2 * length s + 2) s of
        None \<Rightarrow> None
      | Some (v, r) \<Rightarrow> if skipWs r = [] then Some v else None)"

text \<open>
  Fixed readings of the clock and of the identifier generator. The comparison and the sum are
  those of an \<^verbatim>\<open>undefined\<close> operand; no example below reaches them, since every length in
  the examples is one the program counts. The case mapping is that of ASCII, and the
  examples are ASCII text.
\<close>

fun refTime :: "site \<Rightarrow> string" where
  "refTime PromptSite = ''2025-01-01T10:00:00.000Z''"
| "refTime HeuristicSite = ''2025-01-01T10:00:01.000Z''"
| "refTime FallbackSite = ''2025-01-01T10:00:02.000Z''"
| "refTime NormaliseSite = ''2025-01-01T10:00:03.000Z''"
| "refTime UserMessageSite = ''2025-01-01T09:59:59.000Z''"
| "refTime AssistantMessageSite = ''2025-01-01T10:00:04.000Z''"
| "refTime ErrorMessageSite = ''2025-01-01T10:00:05.000Z''"

definition refUUID :: "nat \<Rightarrow> nat option \<Rightarrow> string" where
  "refUUID i j =
     ''00000000-0000-4000-8000-'' @ show_nat i @ ''-''
       @ (case j of None \<Rightarrow> ''phase'' | Some k \<Rightarrow> show_nat k)"

definition refGreater :: "jsval \<Rightarrow> nat \<Rightarrow> bool" where
  "refGreater v n = False"

definition refAdd :: "jsval \<Rightarrow> jsval \<Rightarrow> jsval" where
  "refAdd a b = JNum ''NaN''"

definition refPlatform :: "(string \<Rightarrow> gemini_outcome) \<Rightarrow> platform" where
  "refPlatform g =
     \<lparr>JSON_parse = refParse, isoTime = refTime, randomUUID = refUUID,
      greater = refGreater, add = refAdd, lowerCase = map lower,
      typeErrorMessage = ''Cannot read properties of undefined'',
      syntaxErrorMessage = ''Unexpected token'',
      gemini = g,
      analyzeWorkspace = Inl (Error
        ''Workspace not found. Open a folder or workspace before generating a plan.'')\<rparr>"

section \<open>Plan documents as the types declare them (src/types/index.ts)\<close>

text \<open>
  The interfaces \<^verbatim>\<open>PlanStep\<close>, \<^verbatim>\<open>PlanPhase\<close> and \<^verbatim>\<open>PlanResult\<close> as predicates on values, an optional
  property being absent or a string, and a plan having at least one phase. Two phases have
  the same content when each declared property reads the same in both.
\<close>

fun isString :: "jsval \<Rightarrow> bool" where
  "isString (JStr s) = True"
| "isString v = False"

fun isObject :: "jsval \<Rightarrow> bool" where
  "isObject (JObj kvs) = True"
| "isObject v = False"

definition optionalString :: "jsval \<Rightarrow> bool" where
  "optionalString v = (v = JUndefined \<or> isString v)"

definition isPlanStep :: "jsval \<Rightarrow> bool" where
  "isPlanStep st =
     (isObject st \<and> isString (field st ''id'') \<and> isString (field st ''title'')
      \<and> isString (field st ''description'')
      \<and> (case field st ''references'' of JArr rs \<Rightarrow> list_all isString rs | other \<Rightarrow> False)
      \<and> optionalString (field st ''reasoning'') \<and> optionalString (field st ''estimatedEffort''))"

definition isPlanPhase :: "jsval \<Rightarrow> bool" where
  "isPlanPhase ph =
     (isObject ph \<and> isString (field ph ''id'') \<and> isString (field ph ''title'')
      \<and> isString (field ph ''summary'')
      \<and> (case field ph ''steps'' of JArr ss \<Rightarrow> list_all isPlanStep ss | other \<Rightarrow> False))"

definition isPlanResult :: "jsval \<Rightarrow> bool" where
  "isPlanResult d =
     (isObject d \<and> isString (field d ''task'')
      \<and> (field d ''mode'' = JStr ''plan'' \<or> field d ''mode'' = JStr ''phase'')
      \<and> isString (field d ''summary'') \<and> isString (field d ''generatedAt'')
      \<and> (case field d ''phases'' of
            JArr ps \<Rightarrow> ps \<noteq> [] \<and> list_all isPlanPhase ps
          | other \<Rightarrow> False)
      \<and> optionalString (field d ''rawPlan''))"

definition sameFields :: "string list \<Rightarrow> jsval \<Rightarrow> jsval \<Rightarrow> bool" where
  "sameFields ks a b = list_all (\<lambda>k. field a k = field b k) ks"

definition sameStep :: "jsval \<Rightarrow> jsval \<Rightarrow> bool" where
  "sameStep a b =
     sameFields [''id'', ''title'', ''description'', ''references'', ''reasoning'',
                 ''estimatedEffort''] a b"

definition samePhase :: "jsval \<Rightarrow> jsval \<Rightarrow> bool" where
  "samePhase a b =
     (sameFields [''id'', ''title'', ''summary''] a b
      \<and> (case field a ''steps'' of
            JArr xs \<Rightarrow>
              (case field b ''steps'' of JArr ys \<Rightarrow> list_all2 sameStep xs ys | other \<Rightarrow> False)
          | other \<Rightarrow> False))"

text \<open>The shape of what \<^verbatim>\<open>toISOString\<close> returns, \<open>d\<close> standing for a digit.\<close>

definition isIsoTimestamp :: "string \<Rightarrow> bool" where
  "isIsoTimestamp s =
     list_all2 (\<lambda>p c. if p = CHR ''d'' then isDigit c else c = p) ''dddd-dd-ddTdd:dd:dd.dddZ'' s"

section \<open>Concrete inputs\<close>

definition mockService :: LLMService where
  "mockService = \<lparr>config = \<lparr>provider = ''mock'', apiKey = None\<rparr>, sessionReady = False\<rparr>"

definition geminiService :: LLMService where
  "geminiService =
     \<lparr>config = \<lparr>provider = ''gemini'', apiKey = Some ''key''\<rparr>, sessionReady = True\<rparr>"

definition phaseRequest :: PlanRequest where
  "phaseRequest = \<lparr>task = ''Add login'', mode = Phase, hints = None\<rparr>"

definition emptyContext :: ProjectContext where
  "emptyContext =
     \<lparr>rootPath = ''/work'', files = [], techStack = [],
      summary = ''Located 0 tracked files (avg 0 bytes) across unknown.''\<rparr>"

text \<open>A service for the provider \<^verbatim>\<open>openai\<close>, whose call is a placeholder.\<close>

definition openaiService :: LLMService where
  "openaiService =
     \<lparr>config = \<lparr>provider = ''openai'', apiKey = Some ''key''\<rparr>, sessionReady = False\<rparr>"

text \<open>Workspaces with one and with three scanned files.\<close>

definition sourceFile :: "string \<Rightarrow> ScannedFile" where
  "sourceFile p = \<lparr>path = p, language = ''typescript'', size_bytes = 100\<rparr>"

definition oneFileContext :: ProjectContext where
  "oneFileContext =
     \<lparr>rootPath = ''/work'', files = [sourceFile ''a.ts''], techStack = [''typescript''],
      summary = ''Located 1 tracked files (avg 100 bytes) across typescript.''\<rparr>"

definition threeFilesContext :: ProjectContext where
  "threeFilesContext =
     \<lparr>rootPath = ''/work'', files = [sourceFile ''a.ts'', sourceFile ''b.ts'', sourceFile ''c.ts''],
      techStack = [''typescript''],
      summary = ''Located 3 tracked files (avg 100 bytes) across typescript.''\<rparr>"

text \<open>A platform whose Gemini call returns the given text, and one whose call is blocked.\<close>

definition replying :: "string \<Rightarrow> platform" where
  "replying reply = refPlatform (\<lambda>prompt. Candidate None (Inr reply))"

definition blocked :: platform where
  "blocked = refPlatform (\<lambda>prompt. NoCandidates)"

text \<open>
  The phase of the heuristic plan after normalization: the step without a reasoning has the
  property, holding \<^verbatim>\<open>undefined\<close>.
\<close>

definition normalisedHeuristicPhase :: "ProjectContext \<Rightarrow> jsval" where
  "normalisedHeuristicPhase context =
     JObj
       [(''id'', JStr ''fallback-phase''),
        (''title'', JStr ''Fallback Plan''),
        (''summary'', JStr ''This is a heuristic plan generated without LLM assistance.''),
        (''steps'', JArr
           [JObj
              [(''id'', JStr ''step-1''),
               (''title'', JStr ''Analyze project context''),
               (''description'', JStr (''Review project files under '' @ rootPath context @ ''.'')),
               (''references'', JArr (map JStr (techStack context))),
               (''reasoning'', JStr
                  ''This plan was generated heuristically to provide minimal guidance.''),
               (''estimatedEffort'', JStr ''Low'')],
            JObj
              [(''id'', JStr ''step-2''),
               (''title'', JStr ''Refine requirements''),
               (''description'', JStr
                  ''Manually define objectives and constraints for the next planning attempt.''),
               (''references'', JArr []),
               (''reasoning'', JUndefined),
               (''estimatedEffort'', JStr ''Medium'')]])]"

definition nullPhaseReply :: string where
  \<open>nullPhaseReply = ''{"phases":[null]}''\<close>

definition textStepsReply :: string where
  \<open>textStepsReply = ''{"phases":[{"title":"Setup","steps":"TBD"}]}''\<close>

definition staleDateReply :: string where
  \<open>staleDateReply =
     ''{"generatedAt":"yesterday","phases":[{"id":"p1","title":"Build","summary":"","steps":[]}]}''\<close>

definition wellFormedReply :: string where
  \<open>wellFormedReply =
     ''{"task":"Add login","mode":"phase","summary":"Two steps","generatedAt":"2025-01-01T09:00:00.000Z","phases":[{"id":"p1","title":"Build","summary":"","steps":[{"id":"s1","title":"Edit","description":"Change code","references":["a.ts"]}]}]}''\<close>

definition wellFormedPlan :: jsval where
  "wellFormedPlan =
     JObj
       [(''task'', JStr ''Add login''), (''mode'', JStr ''phase''),
        (''summary'', JStr ''Two steps''),
        (''generatedAt'', JStr ''2025-01-01T09:00:00.000Z''),
        (''phases'', JArr
           [JObj
              [(''id'', JStr ''p1''), (''title'', JStr ''Build''), (''summary'', JStr []),
               (''steps'', JArr
                  [JObj
                     [(''id'', JStr ''s1''), (''title'', JStr ''Edit''),
                      (''description'', JStr ''Change code''),
                      (''references'', JArr [JStr ''a.ts''])]])]])]"






text \<open>A plan whose phase has an object with an own \<^verbatim>\<open>toString\<close> property for a title.\<close>

definition opaqueTitleReply :: string where
  \<open>opaqueTitleReply = ''{"phases":[{"title":{"toString":1},"steps":[]}]}''\<close>

text \<open>A chat session that holds a plan, a request to change it, and a reply that is no JSON.\<close>

definition planningSession :: session where
  "planningSession =
     \<lparr>conversationHistory = [], currentPlan = wellFormedPlan,
      projectContext = Some emptyContext, posted = [], llmService = geminiService\<rparr>"

definition changeRequest :: string where
  "changeRequest = ''Please update the plan''"

definition refusal :: string where
  "refusal = ''I cannot help with that.''"

section \<open>Verification\<close>

subsection \<open>Sequencing\<close>

lemma bindE_Inl [simp]: "bindE (Inl e) f = Inl e"
  by (simp add: bindE_def)

lemma bindE_Inr [simp]: "bindE (Inr x) f = f x"
  by (simp add: bindE_def)


lemma bindP_Inl [simp]: "bindP (Inl e) s f = (Inl e, s)"
  by (simp add: bindP_def)

lemma bindP_Inr [simp]: "bindP (Inr x) s f = f x"
  by (simp add: bindP_def)


lemma toText_JStr [simp]: "toText (JStr s) = Inr s"
  by (simp add: toText_def)




subsection \<open>Property updates\<close>


lemma map_of_put_kv_other: "k' \<noteq> k \<Longrightarrow> map_of (put_kv k v kvs) k' = map_of kvs k'"
  by (induction kvs) auto


lemma field_put_other: "k' \<noteq> k \<Longrightarrow> field (put p k v) k' = field p k'"
  by (cases p) (simp_all add: map_of_put_kv_other)

subsection \<open>The partition of the capped file list\<close>

lemma take_min_length: "take (min (length xs) k) xs = take k xs"
  by (cases "k \<le> length xs") (simp_all add: min_def)

lemma slices_concat:
  "analysisFiles fs @ implementationFiles fs @ verificationFiles fs = fs"
proof -
  define a where "a = length (analysisFiles fs)"
  have "a = min (length fs) (max 2 ((length fs + 2) div 3))"
    unfolding a_def analysisFiles_def slice_def by simp
  then have A: "analysisFiles fs = take a fs"
    unfolding analysisFiles_def slice_def by (simp add: take_min_length)
  have I: "implementationFiles fs = take a (drop a fs)"
    unfolding implementationFiles_def slice_def a_def by simp
  have V: "verificationFiles fs = drop a (drop a fs)"
    unfolding verificationFiles_def slice_from_def a_def by (simp add: mult_2_right)
  show ?thesis
    by (simp only: A I V append_take_drop_id)
qed

lemma analysisFiles_length:
  "length (analysisFiles fs) = min (length fs) (max 2 ((length fs + 2) div 3))"
  unfolding analysisFiles_def slice_def by simp

lemma implementationFiles_length:
  "length (implementationFiles fs)
     = min (length fs - length (analysisFiles fs)) (length (analysisFiles fs))"
  unfolding implementationFiles_def slice_def by simp

lemma file_step_references:
  "map (\<lambda>s. field s ''references'')
       (map (\<lambda>(index, file). step_obj (i index) (t file) (d file) [path file] r)
            (enumerate n xs))
     = map (\<lambda>f. JArr [JStr (path f)]) xs"
  by (induction xs arbitrary: n) (simp_all add: step_obj_def)

lemma createPhasedPlan_steps:
  "\<exists>a i v sa si sv x y.
      createPhasedPlan fs = [a, i, v]
    \<and> field a ''title'' = JStr ''Analysis & Discovery''
    \<and> field i ''title'' = JStr ''Implementation''
    \<and> field v ''title'' = JStr ''Validation & Verification''
    \<and> field a ''steps'' = JArr sa
    \<and> field i ''steps'' = JArr (si @ [x])
    \<and> field v ''steps'' = JArr (sv @ [y])
    \<and> map (\<lambda>s. field s ''references'') sa = map (\<lambda>f. JArr [JStr (path f)]) (analysisFiles fs)
    \<and> map (\<lambda>s. field s ''references'') si
        = map (\<lambda>f. JArr [JStr (path f)]) (implementationFiles fs)
    \<and> map (\<lambda>s. field s ''references'') sv
        = map (\<lambda>f. JArr [JStr (path f)]) (verificationFiles fs)
    \<and> field x ''references'' = JArr []
    \<and> field y ''references'' = JArr [JStr ''package.json'']"
  unfolding createPhasedPlan_def
  by (simp add: phase_obj_def file_step_references del: map_map) (simp add: step_obj_def)

text \<open>
  C5, as the spec states it, fails for short file lists: the slices are cut by \<^verbatim>\<open>slice\<close>,
  which stops at the end of the list. With one scanned file the analysis slice has one file,
  not \<open>max 2 (ceil (1 / 3)) = 2\<close>, and the Analysis phase of the fallback has one step; with
  three scanned files the analysis slice has two files and the implementation slice, which
  should be of equal size, has one.
\<close>

theorem C5_counterexample_short_file_lists:
  "length (analysisFiles (slice 0 10 (files oneFileContext))) = 1
   \<and> max 2 ((length (slice 0 10 (files oneFileContext)) + 2) div 3) = (2 :: nat)
   \<and> (\<exists>st. field (hd (createPhasedPlan (slice 0 10 (files oneFileContext)))) ''steps''
             = JArr [st])
   \<and> length (analysisFiles (slice 0 10 (files threeFilesContext))) = 2
   \<and> length (implementationFiles (slice 0 10 (files threeFilesContext))) = 1
   \<and> length (verificationFiles (slice 0 10 (files threeFilesContext))) = 0"
  by (simp add: oneFileContext_def threeFilesContext_def createPhasedPlan_def phase_obj_def
      analysisFiles_def implementationFiles_def verificationFiles_def slice_def slice_from_def
      enumerate_eq_zip)

text \<open>
  C5, amended: in the multi-phase mode the phases of \<^verbatim>\<open>createFallbackPlan\<close> are those that
  \<^verbatim>\<open>createPhasedPlan\<close> builds from the first ten scanned files: Analysis & Discovery,
  Implementation and Validation & Verification, with one step per file of the analysis, the
  implementation and the validation slice, followed in the last two phases by one fixed
  step. Each file step refers to its file alone. The three slices are consecutive segments
  of the capped list: put one after the other they give the capped list back, and the
  references of the file steps, phase after phase, are the capped files in their order, each
  exactly once. With \<open>n\<close> the number of capped files,
  \<open>min (length files) 10\<close>, the analysis slice has \<open>max 2 (ceil (n / 3))\<close> files when there are
  that many and all \<open>n\<close> otherwise, the implementation slice has as many as the analysis slice
  when that many are left and what is left otherwise, the validation slice has the rest, and
  the three lengths add up to \<open>n\<close>.
\<close>

theorem C5_fallback_phases_partition_capped_files:
  assumes "mode request = Phase"
  shows "\<exists>a i v sa si sv x y.
      field (createFallbackPlan request context t) ''phases'' = JArr [a, i, v]
    \<and> [a, i, v] = createPhasedPlan (slice 0 10 (files context))
    \<and> analysisFiles (slice 0 10 (files context))
          @ implementationFiles (slice 0 10 (files context))
          @ verificationFiles (slice 0 10 (files context))
        = slice 0 10 (files context)
    \<and> field a ''title'' = JStr ''Analysis & Discovery''
    \<and> field i ''title'' = JStr ''Implementation''
    \<and> field v ''title'' = JStr ''Validation & Verification''
    \<and> field a ''steps'' = JArr sa
    \<and> field i ''steps'' = JArr (si @ [x])
    \<and> field v ''steps'' = JArr (sv @ [y])
    \<and> map (\<lambda>s. field s ''references'') sa
        = map (\<lambda>f. JArr [JStr (path f)]) (analysisFiles (slice 0 10 (files context)))
    \<and> map (\<lambda>s. field s ''references'') si
        = map (\<lambda>f. JArr [JStr (path f)]) (implementationFiles (slice 0 10 (files context)))
    \<and> map (\<lambda>s. field s ''references'') sv
        = map (\<lambda>f. JArr [JStr (path f)]) (verificationFiles (slice 0 10 (files context)))
    \<and> map (\<lambda>s. field s ''references'') (sa @ si @ sv)
        = map (\<lambda>f. JArr [JStr (path f)]) (slice 0 10 (files context))
    \<and> field x ''references'' = JArr []
    \<and> field y ''references'' = JArr [JStr ''package.json'']
    \<and> length sa = min (min (length (files context)) 10)
                       (max 2 ((min (length (files context)) 10 + 2) div 3))
    \<and> length si = min (min (length (files context)) 10 - length sa) (length sa)
    \<and> length sa + length si + length sv = min (length (files context)) 10"
proof -
  define capped where "capped = slice 0 10 (files context)"
  have n: "length capped = min (length (files context)) 10"
    by (simp add: capped_def slice_def)
  obtain a i v sa si sv x y where c:
    "createPhasedPlan capped = [a, i, v]"
    "field a ''title'' = JStr ''Analysis & Discovery''"
    "field i ''title'' = JStr ''Implementation''"
    "field v ''title'' = JStr ''Validation & Verification''"
    "field a ''steps'' = JArr sa"
    "field i ''steps'' = JArr (si @ [x])"
    "field v ''steps'' = JArr (sv @ [y])"
    "map (\<lambda>s. field s ''references'') sa
       = map (\<lambda>f. JArr [JStr (path f)]) (analysisFiles capped)"
    "map (\<lambda>s. field s ''references'') si
       = map (\<lambda>f. JArr [JStr (path f)]) (implementationFiles capped)"
    "map (\<lambda>s. field s ''references'') sv
       = map (\<lambda>f. JArr [JStr (path f)]) (verificationFiles capped)"
    "field x ''references'' = JArr []"
    "field y ''references'' = JArr [JStr ''package.json'']"
    using createPhasedPlan_steps [of capped] by blast
  have f: "field (createFallbackPlan request context t) ''phases'' = JArr [a, i, v]"
    using assms c(1) by (simp add: createFallbackPlan_def capped_def)
  have la: "length sa = length (analysisFiles capped)"
    using arg_cong [OF c(8), of length] by simp
  have li: "length si = length (implementationFiles capped)"
    using arg_cong [OF c(9), of length] by simp
  have lv: "length sv = length (verificationFiles capped)"
    using arg_cong [OF c(10), of length] by simp
  have "map (\<lambda>s. field s ''references'') (sa @ si @ sv)
          = map (\<lambda>f. JArr [JStr (path f)])
              (analysisFiles capped @ implementationFiles capped @ verificationFiles capped)"
    using c(8,9,10) by simp
  then have all: "map (\<lambda>s. field s ''references'') (sa @ si @ sv)
          = map (\<lambda>f. JArr [JStr (path f)]) capped"
    by (simp only: slices_concat)
  have "length (sa @ si @ sv) = length capped"
    using arg_cong [OF all, of length] by (simp only: length_map)
  then have sum: "length sa + length si + length sv = min (length (files context)) 10"
    using n by simp
  have a1: "length sa = min (min (length (files context)) 10)
                          (max 2 ((min (length (files context)) 10 + 2) div 3))"
    using la analysisFiles_length [of capped] n by simp
  have i1: "length si = min (min (length (files context)) 10 - length sa) (length sa)"
    using li la implementationFiles_length [of capped] n by simp
  note facts = f c(1) [symmetric] slices_concat [of capped] c(2-) all sum a1 i1
  show ?thesis
    by (rule exI [of _ a], rule exI [of _ i], rule exI [of _ v], rule exI [of _ sa],
        rule exI [of _ si], rule exI [of _ sv], rule exI [of _ x], rule exI [of _ y],
        insert facts [unfolded capped_def], intro conjI, assumption+)
qed

theorem C5_witness_three_files:
  "mode phaseRequest = Phase
   \<and> (\<exists>a i v sa si sv x y.
        field (createFallbackPlan phaseRequest threeFilesContext ''2025-01-01T10:00:02.000Z'')
          ''phases'' = JArr [a, i, v]
      \<and> field a ''steps'' = JArr sa
      \<and> field i ''steps'' = JArr (si @ [x])
      \<and> field v ''steps'' = JArr (sv @ [y])
      \<and> map (\<lambda>s. field s ''references'') (sa @ si @ sv)
          = map (\<lambda>f. JArr [JStr (path f)]) (slice 0 10 (files threeFilesContext))
      \<and> length sa + length si + length sv = min (length (files threeFilesContext)) 10)"
proof -
  have h: "mode phaseRequest = Phase"
    by (simp add: phaseRequest_def)
  from C5_fallback_phases_partition_capped_files
         [OF h, of threeFilesContext "''2025-01-01T10:00:02.000Z''"]
  show ?thesis using h by blast
qed

subsection \<open>The backend adapter never fails\<close>

lemma heuristicPlan_phases:
  "field (heuristicPlan request context t) ''phases''
     = JArr
         [JObj
            [(''id'', JStr ''fallback-phase''),
             (''title'', JStr ''Fallback Plan''),
             (''summary'', JStr ''This is a heuristic plan generated without LLM assistance.''),
             (''steps'', JArr
                [JObj
                   [(''id'', JStr ''step-1''),
                    (''title'', JStr ''Analyze project context''),
                    (''description'',
                       JStr (''Review project files under '' @ rootPath context @ ''.'')),
                    (''references'', JArr (map JStr (techStack context))),
                    (''reasoning'', JStr
                       ''This plan was generated heuristically to provide minimal guidance.''),
                    (''estimatedEffort'', JStr ''Low'')],
                 JObj
                   [(''id'', JStr ''step-2''),
                    (''title'', JStr ''Refine requirements''),
                    (''description'', JStr
                       ''Manually define objectives and constraints for the next planning attempt.''),
                    (''references'', JArr []),
                    (''estimatedEffort'', JStr ''Medium'')]])]]"
  by (simp add: heuristicPlan_def)

lemma LLMService_generatePlan_returns:
  "\<exists>v. LLMService_generatePlan pf svc request context prompt = Inr v"
  by (simp add: LLMService_generatePlan_def split: sum.split)

lemma blocked_sendMessage:
  "sendMessage blocked geminiService prompt = Inl (Error ''Failed to generate content with Gemini'')"
  by (simp add: sendMessage_def sendMessageTry_def responseText_def refPlatform_def
      geminiService_def blocked_def)

text \<open>
  C10: \<^verbatim>\<open>LLMService.generatePlan\<close> returns for every configuration, request, context and outcome
  of the provider call; it never ends in an exception. When the API key is absent or empty,
  or the provider is \<^verbatim>\<open>mock\<close>, or the provider is none of the three supported ones, or the
  provider is Gemini and \<^verbatim>\<open>sendMessage\<close> throws, what it returns is the heuristic plan, whose
  phases are exactly one phase titled "Fallback Plan" with exactly the two steps
  \<^verbatim>\<open>step-1\<close> "Analyze project context" and \<^verbatim>\<open>step-2\<close> "Refine requirements".
\<close>

theorem C10_backend_adapter_falls_back:
  "(\<exists>v. LLMService_generatePlan pf svc request context prompt = Inr v)
   \<and> (apiKey (config svc) = None \<or> apiKey (config svc) = Some []
        \<or> provider (config svc) = ''mock''
        \<or> provider (config svc) \<notin> {''openai'', ''anthropic'', ''gemini''}
        \<or> (provider (config svc) = ''gemini'' \<and> (\<exists>e. sendMessage pf svc prompt = Inl e))
      \<longrightarrow> (\<exists>p s1 s2.
             LLMService_generatePlan pf svc request context prompt
               = Inr (heuristicPlan request context (isoTime pf HeuristicSite))
           \<and> field (heuristicPlan request context (isoTime pf HeuristicSite)) ''phases'' = JArr [p]
           \<and> field p ''title'' = JStr ''Fallback Plan''
           \<and> field p ''steps'' = JArr [s1, s2]
           \<and> field s1 ''id'' = JStr ''step-1''
           \<and> field s1 ''title'' = JStr ''Analyze project context''
           \<and> field s2 ''id'' = JStr ''step-2''
           \<and> field s2 ''title'' = JStr ''Refine requirements''))"
proof (intro conjI impI)
  show "\<exists>v. LLMService_generatePlan pf svc request context prompt = Inr v"
    by (rule LLMService_generatePlan_returns)
next
  assume c: "apiKey (config svc) = None \<or> apiKey (config svc) = Some []
        \<or> provider (config svc) = ''mock''
        \<or> provider (config svc) \<notin> {''openai'', ''anthropic'', ''gemini''}
        \<or> (provider (config svc) = ''gemini'' \<and> (\<exists>e. sendMessage pf svc prompt = Inl e))"
  have r: "LLMService_generatePlan pf svc request context prompt
             = Inr (heuristicPlan request context (isoTime pf HeuristicSite))"
    using c by (auto simp add: LLMService_generatePlan_def)
  show "\<exists>p s1 s2.
          LLMService_generatePlan pf svc request context prompt
            = Inr (heuristicPlan request context (isoTime pf HeuristicSite))
        \<and> field (heuristicPlan request context (isoTime pf HeuristicSite)) ''phases'' = JArr [p]
        \<and> field p ''title'' = JStr ''Fallback Plan''
        \<and> field p ''steps'' = JArr [s1, s2]
        \<and> field s1 ''id'' = JStr ''step-1''
        \<and> field s1 ''title'' = JStr ''Analyze project context''
        \<and> field s2 ''id'' = JStr ''step-2''
        \<and> field s2 ''title'' = JStr ''Refine requirements''"
    unfolding r heuristicPlan_phases by simp
qed

theorem C10_witness_blocked_gemini:
  "provider (config geminiService) = ''gemini''
   \<and> (\<exists>e. sendMessage blocked geminiService ''prompt'' = Inl e)
   \<and> LLMService_generatePlan blocked geminiService phaseRequest emptyContext ''prompt''
       = Inr (heuristicPlan phaseRequest emptyContext (isoTime blocked HeuristicSite))"
proof -
  have h: "provider (config geminiService) = ''gemini''
           \<and> (\<exists>e. sendMessage blocked geminiService ''prompt'' = Inl e)"
    by (simp add: blocked_sendMessage) (simp add: geminiService_def)
  show ?thesis
    using h C10_backend_adapter_falls_back
            [of blocked geminiService phaseRequest emptyContext "''prompt''"]
    by blast
qed

subsection \<open>A reply that is no JSON\<close>

lemma sendMessageTry_unparseable:
  assumes "gemini pf prompt = Candidate reason (Inr raw)"
    and "stripFences (trim raw) = Inr text"
    and "JSON_parse pf text = None"
    and "\<forall>m. matchBraces text = Some m \<longrightarrow> JSON_parse pf m = None"
  shows "\<exists>e. sendMessageTry pf prompt = Inl e"
proof (cases "responseText (gemini pf prompt)")
  case (Inl e)
  then show ?thesis by (simp add: sendMessageTry_def)
next
  case (Inr t)
  then have "t = trim raw"
    using assms(1) by (auto simp add: responseText_def split: option.splits if_splits)
  then show ?thesis
    using Inr assms(2,3,4)
    by (auto simp add: sendMessageTry_def parseOrRecover_def split: option.splits)
qed

lemma sendMessage_unparseable:
  assumes "gemini pf prompt = Candidate reason (Inr raw)"
    and "stripFences (trim raw) = Inr text"
    and "JSON_parse pf text = None"
    and "\<forall>m. matchBraces text = Some m \<longrightarrow> JSON_parse pf m = None"
  shows "\<exists>e. sendMessage pf svc prompt = Inl e"
  using sendMessageTry_unparseable [OF assms] by (auto simp add: sendMessage_def)

lemma refusal_unparseable:
  "stripFences (trim refusal) = Inr refusal \<and> JSON_parse (replying refusal) refusal = None
   \<and> matchBraces refusal = None"
  by code_simp

subsection \<open>Fresh generation with the mock backend\<close>

lemma normalise_heuristic:
  "\<exists>out. normalisePlan pf (heuristicPlan request context t) request context = Inr out
     \<and> field out ''phases'' = JArr [normalisedHeuristicPhase context]
     \<and> \<not> nullish (field out ''rawPlan'')"
  by (simp add: normalisePlan_def heuristicPlan_def ensurePhaseStructure_def ensureStep_def
      coalesce_def js_or_def enumerate_eq_zip normalisedHeuristicPhase_def Let_def)

lemma createPhasedPlan_no_files:
  "createPhasedPlan [] =
     [phase_obj ''phase-analysis'' ''Analysis & Discovery''
        ''Understand current implementation details and dependencies.'' [],
      phase_obj ''phase-implementation'' ''Implementation''
        ''Apply code changes guided by findings from the analysis phase.''
        [step_obj ''implementation-cross-cutting'' ''Share learnings across modules''
           ''Propagate shared updates (types, utilities) discovered during implementation.''
           []
           ''Capture shared follow-up tasks uncovered during implementation.''],
      phase_obj ''phase-validation'' ''Validation & Verification''
        ''Ensure the solution meets requirements and quality gates.''
        [step_obj ''validation-testing'' ''Execute test & lint suite''
           ''Run automated tests, linting, and manual smoke tests as applicable.''
           [''package.json'']
           ''Maintain quality gates to catch regressions early.'']]"
  by (simp add: createPhasedPlan_def analysisFiles_def implementationFiles_def
      verificationFiles_def slice_def slice_from_def enumerate_eq_zip)

lemma generatePlan_heuristic:
  assumes "LLMService_generatePlan pf svc request context
             (buildPlanPrompt request context (slice 0 10 (files context)) (isoTime pf PromptSite))
           = Inr (heuristicPlan request context (isoTime pf HeuristicSite))"
  shows "\<exists>out. generatePlan pf svc request context = Inr out
           \<and> field out ''phases'' = JArr [normalisedHeuristicPhase context]
           \<and> \<not> nullish (field out ''rawPlan'')"
proof -
  obtain out where o:
    "normalisePlan pf (heuristicPlan request context (isoTime pf HeuristicSite)) request context
       = Inr out"
    "field out ''phases'' = JArr [normalisedHeuristicPhase context]"
    "\<not> nullish (field out ''rawPlan'')"
    using normalise_heuristic by blast
  have "generatePlan pf svc request context = Inr out"
    using assms o by (simp add: generatePlan_def Let_def)
  then show ?thesis using o by simp
qed

lemma generatePlan_unconfigured:
  assumes "apiKey (config svc) = None \<or> apiKey (config svc) = Some []
           \<or> provider (config svc) = ''mock''"
  shows "\<exists>out. generatePlan pf svc request context = Inr out
           \<and> field out ''phases'' = JArr [normalisedHeuristicPhase context]
           \<and> \<not> nullish (field out ''rawPlan'')"
proof (rule generatePlan_heuristic)
  show "LLMService_generatePlan pf svc request context
          (buildPlanPrompt request context (slice 0 10 (files context)) (isoTime pf PromptSite))
        = Inr (heuristicPlan request context (isoTime pf HeuristicSite))"
    using assms by (auto simp add: LLMService_generatePlan_def)
qed

lemma generatePlan_gemini_throws:
  assumes "provider (config svc) = ''gemini''"
    and "\<exists>e. sendMessage pf svc
               (buildPlanPrompt request context (slice 0 10 (files context))
                  (isoTime pf PromptSite)) = Inl e"
  shows "\<exists>out. generatePlan pf svc request context = Inr out
           \<and> field out ''phases'' = JArr [normalisedHeuristicPhase context]
           \<and> \<not> nullish (field out ''rawPlan'')"
proof (rule generatePlan_heuristic)
  show "LLMService_generatePlan pf svc request context
          (buildPlanPrompt request context (slice 0 10 (files context)) (isoTime pf PromptSite))
        = Inr (heuristicPlan request context (isoTime pf HeuristicSite))"
    using assms by (auto simp add: LLMService_generatePlan_def)
qed

text \<open>
  C2, as the spec states it, fails: with the mock backend, no scanned file and the multi-phase
  mode, the plan that \<^verbatim>\<open>generatePlan\<close> returns has one phase, titled "Fallback Plan", and the
  Analysis phase of the three-phase fallback has no step at all when there is no file.
\<close>

theorem C2_counterexample_mock_plan_has_one_phase:
  "(\<exists>out. generatePlan blocked mockService phaseRequest emptyContext = Inr out
          \<and> field out ''phases'' = JArr [normalisedHeuristicPhase emptyContext])
   \<and> field (normalisedHeuristicPhase emptyContext) ''title'' = JStr ''Fallback Plan''
   \<and> field (hd (createPhasedPlan (files emptyContext))) ''title'' = JStr ''Analysis & Discovery''
   \<and> field (hd (createPhasedPlan (files emptyContext))) ''steps'' = JArr []"
proof -
  have "\<exists>out. generatePlan blocked mockService phaseRequest emptyContext = Inr out
          \<and> field out ''phases'' = JArr [normalisedHeuristicPhase emptyContext]"
    using generatePlan_unconfigured [of mockService blocked phaseRequest emptyContext]
    by (auto simp add: mockService_def)
  then show ?thesis
    by (simp add: emptyContext_def createPhasedPlan_no_files phase_obj_def
        normalisedHeuristicPhase_def)
qed

lemma normalise_unparsed:
  assumes "tryParsePlan pf raw = JUndefined"
  shows "normalisePlan pf (JStr raw) request context
           = Inr (createFallbackPlan request context (isoTime pf FallbackSite))"
  using assms by (simp add: normalisePlan_def)

lemma fallback_phases_no_files:
  assumes "files context = []" and "mode request = Phase"
  shows "field (createFallbackPlan request context t) ''phases'' = JArr (createPhasedPlan [])"
  using assms by (simp add: createFallbackPlan_def slice_def)

lemma toMarkdown_fallback_no_files:
  assumes "files context = []" and "mode request = Phase"
  shows "\<exists>md. toMarkdown pf (createFallbackPlan request context t) = Inr md"
proof -
  have p: "\<exists>mds. sequenceE (map (phaseMarkdown pf) (createPhasedPlan [])) = Inr mds"
    by (simp add: createPhasedPlan_no_files phase_obj_def step_obj_def phaseMarkdown_def
        stepMarkdown_def)
  have f: "field (createFallbackPlan request context t) ''task'' = JStr (task request)"
    "field (createFallbackPlan request context t) ''summary'' = JStr (summary context)"
    by (simp_all add: createFallbackPlan_def Let_def)
  from p obtain mds where
    "sequenceE (map (phaseMarkdown pf) (createPhasedPlan [])) = Inr mds" by blast
  then show ?thesis
    using f fallback_phases_no_files [OF assms]
    by (simp add: toMarkdown_def)
qed

lemma generatePlan_placeholder:
  assumes "apiKey (config svc) \<noteq> None" and "apiKey (config svc) \<noteq> Some []"
    and "provider (config svc) = ''openai'' \<or> provider (config svc) = ''anthropic''"
    and "tryParsePlan pf invokeOpenAI = JUndefined"
    and "tryParsePlan pf invokeAnthropic = JUndefined"
    and "files context = []" and "mode request = Phase"
  shows "\<exists>out. generatePlan pf svc request context = Inr out
           \<and> field out ''phases''
               = field (createFallbackPlan request context (isoTime pf FallbackSite)) ''phases''"
proof -
  let ?fb = "createFallbackPlan request context (isoTime pf FallbackSite)"
  obtain md where m: "toMarkdown pf ?fb = Inr md"
    using toMarkdown_fallback_no_files [OF assms(6,7)] by blast
  have r: "nullish (field ?fb ''rawPlan'')"
    by (simp add: createFallbackPlan_def Let_def)
  have "\<exists>raw. LLMService_generatePlan pf svc request context
                 (buildPlanPrompt request context (slice 0 10 (files context))
                    (isoTime pf PromptSite)) = Inr (JStr raw)
              \<and> tryParsePlan pf raw = JUndefined"
    using assms(1-5) by (auto simp add: LLMService_generatePlan_def)
  then obtain raw where l:
    "LLMService_generatePlan pf svc request context
       (buildPlanPrompt request context (slice 0 10 (files context)) (isoTime pf PromptSite))
       = Inr (JStr raw)"
    "tryParsePlan pf raw = JUndefined"
    by blast
  have "generatePlan pf svc request context = Inr (put ?fb ''rawPlan'' (JStr md))"
    using l(1) normalise_unparsed [OF l(2)] r m by (simp add: generatePlan_def Let_def)
  then show ?thesis
    by (simp add: field_put_other)
qed

text \<open>
  C2, amended: for a fresh generation with the mock backend (or without an API key), no
  scanned file and the multi-phase mode, \<^verbatim>\<open>generatePlan\<close> returns a plan with exactly one phase,
  titled "Fallback Plan", with exactly two steps: the heuristic plan of the adapter. The
  three phases Analysis & Discovery, Implementation and Validation & Verification are those
  of \<^verbatim>\<open>createFallbackPlan\<close>, which \<^verbatim>\<open>normalisePlan\<close> returns for every text that
  \<^verbatim>\<open>tryParsePlan\<close> rejects (a text that is no JSON, or whose value is not an object with an
  array of phases); with no file its Analysis phase has no step, and the other two phases
  have their one fixed step each. A fresh generation reaches it when a key is set and the
  provider is \<^verbatim>\<open>openai\<close> or \<^verbatim>\<open>anthropic\<close>, whose placeholder answers are objects without phases:
  then the plan that \<^verbatim>\<open>generatePlan\<close> returns has these three phases. It does not reach it
  when the provider is \<^verbatim>\<open>gemini\<close> and the answer is a text that, after the removal of fences,
  parses neither directly nor after the recovery of a braced block: \<^verbatim>\<open>sendMessage\<close> throws,
  and the plan returned is again the one with the single phase "Fallback Plan".
\<close>

theorem C2_mock_generation_gives_heuristic_plan:
  assumes "files context = []" and "mode request = Phase"
  shows "(apiKey (config svc) = None \<or> apiKey (config svc) = Some []
            \<or> provider (config svc) = ''mock''
          \<longrightarrow> (\<exists>out p s1 s2.
                 generatePlan pf svc request context = Inr out
               \<and> field out ''phases'' = JArr [p]
               \<and> field p ''title'' = JStr ''Fallback Plan''
               \<and> field p ''steps'' = JArr [s1, s2]))
       \<and> (\<forall>raw. tryParsePlan pf raw = JUndefined
            \<longrightarrow> normalisePlan pf (JStr raw) request context
                  = Inr (createFallbackPlan request context (isoTime pf FallbackSite)))
       \<and> (\<exists>a i v si sv.
             field (createFallbackPlan request context (isoTime pf FallbackSite)) ''phases''
               = JArr [a, i, v]
           \<and> field a ''title'' = JStr ''Analysis & Discovery'' \<and> field a ''steps'' = JArr []
           \<and> field i ''title'' = JStr ''Implementation'' \<and> field i ''steps'' = JArr [si]
           \<and> field v ''title'' = JStr ''Validation & Verification''
           \<and> field v ''steps'' = JArr [sv])
       \<and> (apiKey (config svc) \<noteq> None \<and> apiKey (config svc) \<noteq> Some []
            \<and> (provider (config svc) = ''openai'' \<or> provider (config svc) = ''anthropic'')
            \<and> tryParsePlan pf invokeOpenAI = JUndefined
            \<and> tryParsePlan pf invokeAnthropic = JUndefined
          \<longrightarrow> (\<exists>out. generatePlan pf svc request context = Inr out
                 \<and> field out ''phases''
                     = field (createFallbackPlan request context (isoTime pf FallbackSite))
                         ''phases''))
       \<and> (\<forall>reason raw body.
             provider (config svc) = ''gemini''
           \<and> gemini pf (buildPlanPrompt request context (slice 0 10 (files context))
                          (isoTime pf PromptSite)) = Candidate reason (Inr raw)
           \<and> stripFences (trim raw) = Inr body \<and> JSON_parse pf body = None
           \<and> (\<forall>m. matchBraces body = Some m \<longrightarrow> JSON_parse pf m = None)
          \<longrightarrow> (\<exists>out p s1 s2.
                 generatePlan pf svc request context = Inr out
               \<and> field out ''phases'' = JArr [p]
               \<and> field p ''title'' = JStr ''Fallback Plan''
               \<and> field p ''steps'' = JArr [s1, s2]))"
proof (intro conjI impI allI)
  assume "apiKey (config svc) = None \<or> apiKey (config svc) = Some []
            \<or> provider (config svc) = ''mock''"
  from generatePlan_unconfigured [OF this] obtain out where
    o: "generatePlan pf svc request context = Inr out"
       "field out ''phases'' = JArr [normalisedHeuristicPhase context]"
    by blast
  show "\<exists>out p s1 s2.
          generatePlan pf svc request context = Inr out
        \<and> field out ''phases'' = JArr [p]
        \<and> field p ''title'' = JStr ''Fallback Plan''
        \<and> field p ''steps'' = JArr [s1, s2]"
    using o by (simp add: normalisedHeuristicPhase_def)
next
  fix raw assume "tryParsePlan pf raw = JUndefined"
  then show "normalisePlan pf (JStr raw) request context
               = Inr (createFallbackPlan request context (isoTime pf FallbackSite))"
    by (rule normalise_unparsed)
next
  show "\<exists>a i v si sv.
          field (createFallbackPlan request context (isoTime pf FallbackSite)) ''phases''
            = JArr [a, i, v]
        \<and> field a ''title'' = JStr ''Analysis & Discovery'' \<and> field a ''steps'' = JArr []
        \<and> field i ''title'' = JStr ''Implementation'' \<and> field i ''steps'' = JArr [si]
        \<and> field v ''title'' = JStr ''Validation & Verification''
        \<and> field v ''steps'' = JArr [sv]"
    using fallback_phases_no_files [OF assms]
    by (simp add: createPhasedPlan_no_files phase_obj_def)
next
  assume a: "apiKey (config svc) \<noteq> None \<and> apiKey (config svc) \<noteq> Some []
            \<and> (provider (config svc) = ''openai'' \<or> provider (config svc) = ''anthropic'')
            \<and> tryParsePlan pf invokeOpenAI = JUndefined
            \<and> tryParsePlan pf invokeAnthropic = JUndefined"
  show "\<exists>out. generatePlan pf svc request context = Inr out
          \<and> field out ''phases''
              = field (createFallbackPlan request context (isoTime pf FallbackSite)) ''phases''"
    using a generatePlan_placeholder [OF _ _ _ _ _ assms] by blast
next
  fix reason raw body
  assume g: "provider (config svc) = ''gemini''
           \<and> gemini pf (buildPlanPrompt request context (slice 0 10 (files context))
                          (isoTime pf PromptSite)) = Candidate reason (Inr raw)
           \<and> stripFences (trim raw) = Inr body \<and> JSON_parse pf body = None
           \<and> (\<forall>m. matchBraces body = Some m \<longrightarrow> JSON_parse pf m = None)"
  have "\<exists>e. sendMessage pf svc
               (buildPlanPrompt request context (slice 0 10 (files context))
                  (isoTime pf PromptSite)) = Inl e"
    using g sendMessage_unparseable by blast
  from generatePlan_gemini_throws [OF _ this] g obtain out where
    o: "generatePlan pf svc request context = Inr out"
       "field out ''phases'' = JArr [normalisedHeuristicPhase context]"
    by blast
  show "\<exists>out p s1 s2.
          generatePlan pf svc request context = Inr out
        \<and> field out ''phases'' = JArr [p]
        \<and> field p ''title'' = JStr ''Fallback Plan''
        \<and> field p ''steps'' = JArr [s1, s2]"
    using o by (simp add: normalisedHeuristicPhase_def)
qed

lemma placeholders_rejected:
  "tryParsePlan blocked invokeOpenAI = JUndefined
   \<and> tryParsePlan blocked invokeAnthropic = JUndefined
   \<and> tryParsePlan blocked refusal = JUndefined"
  by code_simp

theorem C2_witness_mock_service:
  "provider (config mockService) = ''mock'' \<and> files emptyContext = []
   \<and> mode phaseRequest = Phase
   \<and> (\<exists>out p s1 s2.
         generatePlan blocked mockService phaseRequest emptyContext = Inr out
       \<and> field out ''phases'' = JArr [p]
       \<and> field p ''title'' = JStr ''Fallback Plan''
       \<and> field p ''steps'' = JArr [s1, s2])
   \<and> tryParsePlan blocked refusal = JUndefined
   \<and> normalisePlan blocked (JStr refusal) phaseRequest emptyContext
       = Inr (createFallbackPlan phaseRequest emptyContext (isoTime blocked FallbackSite))
   \<and> provider (config openaiService) = ''openai''
   \<and> tryParsePlan blocked invokeOpenAI = JUndefined
   \<and> (\<exists>out. generatePlan blocked openaiService phaseRequest emptyContext = Inr out
          \<and> field out ''phases''
              = field (createFallbackPlan phaseRequest emptyContext
                         (isoTime blocked FallbackSite)) ''phases'')
   \<and> provider (config geminiService) = ''gemini''
   \<and> stripFences (trim refusal) = Inr refusal
   \<and> JSON_parse (replying refusal) refusal = None \<and> matchBraces refusal = None
   \<and> (\<exists>out p s1 s2.
         generatePlan (replying refusal) geminiService phaseRequest emptyContext = Inr out
       \<and> field out ''phases'' = JArr [p]
       \<and> field p ''title'' = JStr ''Fallback Plan''
       \<and> field p ''steps'' = JArr [s1, s2])"
proof -
  have h: "files emptyContext = []" "mode phaseRequest = Phase"
    by (simp_all add: emptyContext_def phaseRequest_def)
  have m: "provider (config mockService) = ''mock''"
    by (simp add: mockService_def)
  have o: "apiKey (config openaiService) \<noteq> None" "apiKey (config openaiService) \<noteq> Some []"
    "provider (config openaiService) = ''openai''"
    by (simp_all add: openaiService_def)
  note r = placeholders_rejected
  have g: "provider (config geminiService) = ''gemini''"
    by (simp add: geminiService_def)
  have u: "stripFences (trim refusal) = Inr refusal"
    "JSON_parse (replying refusal) refusal = None" "matchBraces refusal = None"
    using refusal_unparseable by simp_all
  have c: "gemini (replying refusal)
             (buildPlanPrompt phaseRequest emptyContext (slice 0 10 (files emptyContext))
                (isoTime (replying refusal) PromptSite))
           = Candidate None (Inr refusal)"
    by (simp add: replying_def refPlatform_def)
  have v: "\<forall>m. matchBraces refusal = Some m \<longrightarrow> JSON_parse (replying refusal) m = None"
    using u(3) by simp
  have t: "\<exists>out p s1 s2.
         generatePlan (replying refusal) geminiService phaseRequest emptyContext = Inr out
       \<and> field out ''phases'' = JArr [p]
       \<and> field p ''title'' = JStr ''Fallback Plan''
       \<and> field p ''steps'' = JArr [s1, s2]"
    using C2_mock_generation_gives_heuristic_plan [OF h, of geminiService "replying refusal"]
          g u(1,2) c v
    by blast
  from C2_mock_generation_gives_heuristic_plan [OF h, of mockService blocked]
       C2_mock_generation_gives_heuristic_plan [OF h, of openaiService blocked]
  show ?thesis using h m o r g u t by blast
qed

subsection \<open>A response that parses but is not a plan\<close>

text \<open>
  C1 does not hold of the code. The text \<^verbatim>\<open>{"phases":[null]}\<close> is valid JSON with an array of
  phases, so \<^verbatim>\<open>tryParsePlan\<close> accepts it, and \<^verbatim>\<open>ensurePhaseStructure\<close> then reads a property of
  \<^verbatim>\<open>null\<close>: \<^verbatim>\<open>normalisePlan\<close> ends in a TypeError instead of returning a plan, and so does
  \<^verbatim>\<open>generatePlan\<close> when Gemini answers with this text. The same happens for a phase whose
  \<^verbatim>\<open>steps\<close> is a string.
\<close>

theorem C1_normalisePlan_throws_on_null_phase:
  "JSON_parse (replying nullPhaseReply) nullPhaseReply = Some (JObj [(''phases'', JArr [JNull])])
   \<and> normalisePlan (replying nullPhaseReply) (JStr nullPhaseReply) phaseRequest emptyContext
       = Inl TypeError
   \<and> generatePlan (replying nullPhaseReply) geminiService phaseRequest emptyContext
       = Inl TypeError
   \<and> generatePlan (replying textStepsReply) geminiService phaseRequest emptyContext
       = Inl TypeError"
  by code_simp

theorem C1_witness_null_phase_reply:
  "\<exists>e. generatePlan (replying nullPhaseReply) geminiService phaseRequest emptyContext = Inl e"
  using C1_normalisePlan_throws_on_null_phase by blast

subsection \<open>Repair keeps a well-formed plan\<close>

lemma isString_not_nullish: "isString v \<Longrightarrow> \<not> nullish v"
  by (cases v) simp_all

lemma isObject_not_nullish: "isObject v \<Longrightarrow> \<not> nullish v"
  by (cases v) simp_all

lemma ensureStep_wellformed:
  assumes "isPlanStep st"
  shows "\<exists>st'. ensureStep pf i j st = Inr st' \<and> sameStep st' st"
proof -
  from assms obtain rs where r: "field st ''references'' = JArr rs"
    by (auto simp add: isPlanStep_def split: jsval.splits)
  from assms have n: "\<not> nullish st" "\<not> nullish (field st ''id'')"
    "\<not> nullish (field st ''title'')" "\<not> nullish (field st ''description'')"
    by (simp_all add: isPlanStep_def isString_not_nullish isObject_not_nullish)
  show ?thesis
    using n r by (simp add: ensureStep_def coalesce_def sameStep_def sameFields_def)
qed

lemma ensureSteps_wellformed:
  "list_all isPlanStep ss \<Longrightarrow>
   \<exists>ss'. sequenceE (map (\<lambda>(j, step). ensureStep pf i j step) (enumerate n ss)) = Inr ss'
       \<and> list_all2 sameStep ss' ss"
proof (induction ss arbitrary: n)
  case Nil
  then show ?case by simp
next
  case (Cons st ss)
  from Cons.prems have h: "isPlanStep st" "list_all isPlanStep ss"
    by simp_all
  obtain st' where a: "ensureStep pf i n st = Inr st'" "sameStep st' st"
    using ensureStep_wellformed [OF h(1)] by blast
  obtain ss' where b:
    "sequenceE (map (\<lambda>(j, step). ensureStep pf i j step) (enumerate (Suc n) ss)) = Inr ss'"
    "list_all2 sameStep ss' ss"
    using Cons.IH [OF h(2)] by blast
  show ?case using a b by simp
qed

lemma ensurePhase_wellformed:
  assumes "isPlanPhase ph"
  shows "\<exists>ph'. ensurePhaseStructure pf i ph = Inr ph' \<and> samePhase ph' ph"
proof -
  from assms obtain ss where s: "field ph ''steps'' = JArr ss" "list_all isPlanStep ss"
    by (auto simp add: isPlanPhase_def split: jsval.splits)
  obtain ss' where t:
    "sequenceE (map (\<lambda>(j, step). ensureStep pf i j step) (enumerate 0 ss)) = Inr ss'"
    "list_all2 sameStep ss' ss"
    using ensureSteps_wellformed [OF s(2)] by blast
  from assms have n: "\<not> nullish ph" "\<not> nullish (field ph ''id'')"
    "\<not> nullish (field ph ''title'')" "\<not> nullish (field ph ''summary'')"
    by (simp_all add: isPlanPhase_def isString_not_nullish isObject_not_nullish)
  show ?thesis
    using n s t
    by (simp add: ensurePhaseStructure_def coalesce_def samePhase_def sameFields_def)
qed

lemma ensurePhases_wellformed:
  "list_all isPlanPhase ps \<Longrightarrow>
   \<exists>ps'. sequenceE (map (\<lambda>(i, phase). ensurePhaseStructure pf i phase) (enumerate n ps))
            = Inr ps'
       \<and> list_all2 samePhase ps' ps"
proof (induction ps arbitrary: n)
  case Nil
  then show ?case by simp
next
  case (Cons ph ps)
  from Cons.prems have h: "isPlanPhase ph" "list_all isPlanPhase ps"
    by simp_all
  obtain ph' where a: "ensurePhaseStructure pf n ph = Inr ph'" "samePhase ph' ph"
    using ensurePhase_wellformed [OF h(1)] by blast
  obtain ps' where b:
    "sequenceE (map (\<lambda>(i, phase). ensurePhaseStructure pf i phase) (enumerate (Suc n) ps))
       = Inr ps'"
    "list_all2 samePhase ps' ps"
    using Cons.IH [OF h(2)] by blast
  show ?case using a b by simp
qed

lemma ensurePhase_id:
  "ensurePhaseStructure pf i ph = Inr ph' \<Longrightarrow>
   field ph' ''id''
     = (if nullish (field ph ''id'') then JStr (randomUUID pf i None) else field ph ''id'')"
  by (auto simp add: ensurePhaseStructure_def coalesce_def
      split: if_splits jsval.splits sum.splits)

lemma ensureStep_id:
  "ensureStep pf i j st = Inr st' \<Longrightarrow>
   field st' ''id''
     = (if nullish (field st ''id'') then JStr (randomUUID pf i (Some j)) else field st ''id'')"
  by (auto simp add: ensureStep_def coalesce_def split: if_splits)

text \<open>
  C6: when the text of the response parses to a well-formed plan document (the shape that
  \<^verbatim>\<open>PlanResult\<close> declares, with at least one phase), \<^verbatim>\<open>normalisePlan\<close> returns a plan whose phases
  are as many as the document's and have, one by one, the same content: the same id, title and
  summary, and steps with the same id, title, description, references, reasoning and
  estimated effort (a reasoning or an effort that the document leaves out reads \<^verbatim>\<open>undefined\<close>
  in the result as well). For any phase and any step that the repair accepts, an id that is
  present is kept, and a fresh one is drawn only where the id is \<^verbatim>\<open>null\<close> or missing.
\<close>

theorem C6_repair_is_identity_on_wellformed_phases:
  assumes "JSON_parse pf raw = Some doc" and "isPlanResult doc"
  shows "(\<exists>out ps ps'. normalisePlan pf (JStr raw) request context = Inr out
            \<and> field doc ''phases'' = JArr ps \<and> field out ''phases'' = JArr ps'
            \<and> list_all2 samePhase ps' ps)
       \<and> (\<forall>i ph ph'. ensurePhaseStructure pf i ph = Inr ph' \<longrightarrow>
             field ph' ''id''
               = (if nullish (field ph ''id'') then JStr (randomUUID pf i None)
                  else field ph ''id''))
       \<and> (\<forall>i j st st'. ensureStep pf i j st = Inr st' \<longrightarrow>
             field st' ''id''
               = (if nullish (field st ''id'') then JStr (randomUUID pf i (Some j))
                  else field st ''id''))"
proof -
  from assms(2) obtain ps where p:
    "field doc ''phases'' = JArr ps" "ps \<noteq> []" "list_all isPlanPhase ps"
    by (auto simp add: isPlanResult_def split: jsval.splits)
  from assms(2) obtain kvs where d: "doc = JObj kvs"
    by (cases doc) (simp_all add: isPlanResult_def)
  have t: "tryParsePlan pf raw = doc"
    using assms(1) p d by (simp add: tryParsePlan_def)
  obtain ps' where q:
    "sequenceE (map (\<lambda>(i, phase). ensurePhaseStructure pf i phase) (enumerate 0 ps)) = Inr ps'"
    "list_all2 samePhase ps' ps"
    using ensurePhases_wellformed [OF p(3)] by blast
  have "\<exists>out. normalisePlan pf (JStr raw) request context = Inr out
          \<and> field out ''phases'' = JArr ps'"
    using t d p q by (simp add: normalisePlan_def Let_def)
  then have "\<exists>out ps ps'. normalisePlan pf (JStr raw) request context = Inr out
            \<and> field doc ''phases'' = JArr ps \<and> field out ''phases'' = JArr ps'
            \<and> list_all2 samePhase ps' ps"
    using p q by blast
  then show ?thesis
    using ensurePhase_id ensureStep_id by blast
qed

lemma wellFormedReply_parses:
  "JSON_parse (replying wellFormedReply) wellFormedReply = Some wellFormedPlan"
  by code_simp

lemma wellFormedPlan_isPlanResult: "isPlanResult wellFormedPlan"
  by code_simp

theorem C6_witness_wellformed_reply:
  "JSON_parse (replying wellFormedReply) wellFormedReply = Some wellFormedPlan
   \<and> isPlanResult wellFormedPlan
   \<and> (\<exists>out ps ps'.
         normalisePlan (replying wellFormedReply) (JStr wellFormedReply) phaseRequest emptyContext
           = Inr out
       \<and> field wellFormedPlan ''phases'' = JArr ps \<and> field out ''phases'' = JArr ps'
       \<and> list_all2 samePhase ps' ps)"
  using C6_repair_is_identity_on_wellformed_phases
          [OF wellFormedReply_parses wellFormedPlan_isPlanResult, of phaseRequest emptyContext]
        wellFormedReply_parses wellFormedPlan_isPlanResult
  by blast

subsection \<open>The fields the normalizer fills in\<close>

lemma normalise_fields:
  assumes "tryParsePlan pf raw = parsed" and "truthy parsed"
    and "normalisePlan pf (JStr raw) request context = Inr out"
  shows "field out ''task''
           = (if truthy (field parsed ''task'') then field parsed ''task''
              else JStr (task request))
       \<and> field out ''mode''
           = (if truthy (field parsed ''mode'') then field parsed ''mode''
              else JStr (mode_text (mode request)))
       \<and> field out ''summary''
           = (if truthy (field parsed ''summary'') then field parsed ''summary''
              else JStr (summary context))
       \<and> field out ''generatedAt''
           = (if truthy (field parsed ''generatedAt'') then field parsed ''generatedAt''
              else JStr (isoTime pf NormaliseSite))"
  using assms
  by (auto simp add: normalisePlan_def Let_def js_or_def split: jsval.splits sum.splits if_splits)

lemma truthy_not_undefined: "truthy v \<Longrightarrow> v \<noteq> JUndefined"
  by auto

lemma staleDateReply_normalised:
  "normalisePlan (replying staleDateReply) (JStr staleDateReply) phaseRequest emptyContext
     = Inr (JObj
         [(''task'', JStr ''Add login''), (''mode'', JStr ''phase''),
          (''summary'', JStr ''Located 0 tracked files (avg 0 bytes) across unknown.''),
          (''generatedAt'', JStr ''yesterday''),
          (''phases'', JArr
             [JObj [(''id'', JStr ''p1''), (''title'', JStr ''Build''), (''summary'', JStr []),
                    (''steps'', JArr [])]]),
          (''rawPlan'', JUndefined)])"
  by code_simp

text \<open>
  C4, as the spec states it, fails for \<^verbatim>\<open>generatedAt\<close>: a response whose \<^verbatim>\<open>generatedAt\<close> is the
  text "yesterday" is normalized to a plan whose \<^verbatim>\<open>generatedAt\<close> is still "yesterday", which is
  no timestamp and is not the time of the normalization.
\<close>

theorem C4_counterexample_corrupted_timestamp_kept:
  "(\<exists>out. normalisePlan (replying staleDateReply) (JStr staleDateReply) phaseRequest emptyContext
            = Inr out
         \<and> field out ''generatedAt'' = JStr ''yesterday'')
   \<and> \<not> isIsoTimestamp ''yesterday''
   \<and> ''yesterday'' \<noteq> isoTime (replying staleDateReply) NormaliseSite"
proof -
  have "\<not> isIsoTimestamp ''yesterday''"
    by code_simp
  moreover have "''yesterday'' \<noteq> isoTime (replying staleDateReply) NormaliseSite"
    by (simp add: replying_def refPlatform_def)
  ultimately show ?thesis
    by (simp add: staleDateReply_normalised)
qed

text \<open>
  C4, amended: when the text of the response parses to a usable object and the normalizer
  returns, a missing mode is replaced by the request's mode and the mode of the result is
  never \<^verbatim>\<open>undefined\<close>; a missing task is replaced by the request's task and a missing summary
  by the context's summary. The \<^verbatim>\<open>generatedAt\<close> of the result is the response's own value
  whenever that value is truthy, whatever it is, and the time of the normalization otherwise
  (when it is missing, \<^verbatim>\<open>null\<close>, empty, zero or \<^verbatim>\<open>false\<close>).
\<close>

theorem C4_missing_fields_take_request_values:
  assumes "tryParsePlan pf raw = parsed" and "truthy parsed"
    and "normalisePlan pf (JStr raw) request context = Inr out"
  shows "(field parsed ''mode'' = JUndefined
            \<longrightarrow> field out ''mode'' = JStr (mode_text (mode request)))
       \<and> field out ''mode'' \<noteq> JUndefined
       \<and> (field parsed ''task'' = JUndefined \<longrightarrow> field out ''task'' = JStr (task request))
       \<and> (field parsed ''summary'' = JUndefined
            \<longrightarrow> field out ''summary'' = JStr (summary context))
       \<and> field out ''generatedAt''
           = (if truthy (field parsed ''generatedAt'') then field parsed ''generatedAt''
              else JStr (isoTime pf NormaliseSite))"
  using normalise_fields [OF assms] by (auto dest: truthy_not_undefined)

lemma staleDateReply_parsed:
  "tryParsePlan (replying staleDateReply) staleDateReply
     = JObj [(''generatedAt'', JStr ''yesterday''),
             (''phases'', JArr
                [JObj [(''id'', JStr ''p1''), (''title'', JStr ''Build''),
                       (''summary'', JStr []), (''steps'', JArr [])]])]"
  by code_simp

theorem C4_witness_reply_without_mode:
  "truthy (tryParsePlan (replying staleDateReply) staleDateReply)
   \<and> field (tryParsePlan (replying staleDateReply) staleDateReply) ''mode'' = JUndefined
   \<and> (\<exists>out. normalisePlan (replying staleDateReply) (JStr staleDateReply) phaseRequest
               emptyContext = Inr out
          \<and> field out ''mode'' = JStr (mode_text (mode phaseRequest))
          \<and> field out ''task'' = JStr (task phaseRequest)
          \<and> field out ''summary'' = JStr (summary emptyContext))"
proof -
  have a: "truthy (tryParsePlan (replying staleDateReply) staleDateReply)"
    and b: "field (tryParsePlan (replying staleDateReply) staleDateReply) ''mode'' = JUndefined"
    and c: "field (tryParsePlan (replying staleDateReply) staleDateReply) ''task'' = JUndefined"
    and d: "field (tryParsePlan (replying staleDateReply) staleDateReply) ''summary''
              = JUndefined"
    by (simp_all add: staleDateReply_parsed)
  from C4_missing_fields_take_request_values [OF refl a staleDateReply_normalised]
  show ?thesis
    using a b c d staleDateReply_normalised by simp
qed

subsection \<open>The prompt depends on the clock\<close>

lemma join_Cons: "join sep (x # xs) = x @ concat (map (\<lambda>z. sep @ z) xs)"
  by (induction xs arbitrary: x) auto

lemma join_Cons2: "ys \<noteq> [] \<Longrightarrow> join sep (x # ys) = x @ sep @ join sep ys"
  by (cases ys) auto

lemma join_append_mid:
  "join sep (xs @ y # zs)
     = concat (map (\<lambda>x. x @ sep) xs) @ y @ concat (map (\<lambda>z. sep @ z) zs)"
proof (induction xs)
  case Nil
  show ?case by (simp add: join_Cons del: join.simps)
next
  case (Cons a xs)
  have "join sep ((a # xs) @ y # zs) = a @ sep @ join sep (xs @ y # zs)"
    by (simp add: join_Cons2 del: join.simps)
  then show ?case using Cons by simp
qed

lemma buildPlanPrompt_split:
  "\<exists>before after. \<forall>t. buildPlanPrompt request context fs t = before @ t @ after"
proof -
  let ?A = "concat (map (\<lambda>x. x @ NL) (promptLinesBefore request context fs))"
  let ?B = "concat (map (\<lambda>z. NL @ z) promptLinesAfter)"
  have "\<forall>t. buildPlanPrompt request context fs t
           = (?A @ [CHR 0x20, CHR 0x20, CHR 0x20, CHR 0x20, CHR 0x22] @ ''generatedAt''
                @ [CHR 0x22] @ '': '' @ [CHR 0x22])
             @ t @ ([CHR 0x22] @ '','' @ ?B)"
    by (simp add: buildPlanPrompt_def unlines_def join_append_mid)
  then show ?thesis by blast
qed

lemma buildPlanPrompt_inj:
  "(buildPlanPrompt request context fs t1 = buildPlanPrompt request context fs t2) = (t1 = t2)"
proof -
  obtain a b where "\<forall>t. buildPlanPrompt request context fs t = a @ t @ b"
    using buildPlanPrompt_split by blast
  then show ?thesis by simp
qed

text \<open>
  C8, as the spec states it, fails: the prompt embeds \<^verbatim>\<open>new Date().toISOString()\<close>, so two
  invocations on the same request, context and files that read the clock one second apart
  produce different prompts.
\<close>

theorem C8_counterexample_prompts_differ_with_time:
  "buildPlanPrompt phaseRequest emptyContext [] ''2025-01-01T10:00:00.000Z''
     \<noteq> buildPlanPrompt phaseRequest emptyContext [] ''2025-01-01T10:00:01.000Z''"
  by (simp add: buildPlanPrompt_inj)

text \<open>
  C8, amended: the prompt is a function of the request, the context, the file list and the
  time read while it is built, and of nothing else; it has no side effect. For a fixed
  request, context and file list, two invocations produce the identical prompt exactly when
  they read the same timestamp.
\<close>

theorem C8_prompt_determined_by_inputs_and_time:
  "(buildPlanPrompt request context fs t1 = buildPlanPrompt request context fs t2) = (t1 = t2)"
  by (rule buildPlanPrompt_inj)

subsection \<open>The Markdown of a plan\<close>









text \<open>
  A template literal cannot print an object that has an own \<^verbatim>\<open>toString\<close> property: a phase
  with such a title is not rendered, and \<^verbatim>\<open>generatePlan\<close> ends in the TypeError.
\<close>

lemma opaque_title_not_rendered:
  "phaseMarkdown pf (JObj [(''title'', JObj [(''toString'', JNum ''1'')]), (''steps'', JArr [])])
     = Inl TypeError"
  by (simp add: phaseMarkdown_def toText_def)

lemma opaqueTitleReply_throws:
  "generatePlan (replying opaqueTitleReply) geminiService phaseRequest emptyContext
     = Inl TypeError"
  by code_simp





subsection \<open>Fences around the response\<close>






lemma dropLeading_none:
  "find (\<lambda>w. w \<noteq> [] \<and> prefix w s) ws = None \<Longrightarrow> dropLeading ws s = s"
  using dropLeading.simps [of ws s] by simp

lemma dropLeading_Nil: "dropLeading ws [] = []"
proof -
  have "find (\<lambda>w. w \<noteq> [] \<and> prefix w []) ws = None"
    by (simp add: find_None_iff)
  then show ?thesis by (rule dropLeading_none)
qed














lemma ensureStep_gemini [simp]: "ensureStep (pf\<lparr>gemini := g\<rparr>) = ensureStep pf"
  by (simp add: fun_eq_iff ensureStep_def)

lemma ensurePhaseStructure_gemini [simp]:
  "ensurePhaseStructure (pf\<lparr>gemini := g\<rparr>) = ensurePhaseStructure pf"
  by (simp add: fun_eq_iff ensurePhaseStructure_def Let_def
      cong: jsval.case_cong sum.case_cong if_cong)

lemma normalisePlan_gemini [simp]: "normalisePlan (pf\<lparr>gemini := g\<rparr>) = normalisePlan pf"
  by (simp add: fun_eq_iff normalisePlan_def tryParsePlan_def Let_def
      cong: jsval.case_cong sum.case_cong option.case_cong if_cong)

lemma numGt_gemini [simp]: "numGt (pf\<lparr>gemini := g\<rparr>) n k = numGt pf n k"
  by (cases n) simp_all

lemma stepMarkdown_gemini [simp]: "stepMarkdown (pf\<lparr>gemini := g\<rparr>) = stepMarkdown pf"
  by (simp add: fun_eq_iff stepMarkdown_def Let_def cong: jsval.case_cong sum.case_cong if_cong)

lemma phaseMarkdown_gemini [simp]: "phaseMarkdown (pf\<lparr>gemini := g\<rparr>) = phaseMarkdown pf"
  by (simp add: fun_eq_iff phaseMarkdown_def Let_def cong: jsval.case_cong sum.case_cong if_cong)

lemma toMarkdown_gemini [simp]: "toMarkdown (pf\<lparr>gemini := g\<rparr>) = toMarkdown pf"
  by (simp add: fun_eq_iff toMarkdown_def Let_def cong: jsval.case_cong sum.case_cong if_cong)










subsection \<open>A modification that the backend cannot answer\<close>

lemma modifyPlan_backend_fails:
  assumes "modificationPrompt s msg = Inr prompt"
    and "\<exists>e. sendMessageTry pf prompt = Inl e"
  shows "modifyPlan pf s msg
           = (Inl (Error (if sessionReady (llmService s)
                          then ''Failed to generate content with Gemini''
                          else ''Gemini chat session not initialized. Check API key and provider configuration.'')),
              s)"
  using assms by (auto simp add: modifyPlan_def sendMessage_def)

lemma trim_nonempty: "trim msg \<noteq> [] \<Longrightarrow> msg \<noteq> []"
  by (auto simp add: trim_def dropLeading_Nil)

text \<open>
  C7: take a message that is not blank and that the classifier routes to a modification (an
  edit verb and a plan noun, and a current plan that is set), in a session whose project
  context is known, and let the backend's answer to the modification prompt be a text that,
  after the removal of fences, parses neither directly nor after the recovery of a braced
  block. Then \<^verbatim>\<open>handleChatMessage\<close> ends with exactly two new turns in the conversation, the
  user's message and an assistant turn without a plan whose content is the cross mark,
  " Error: " and the message of the error that \<^verbatim>\<open>sendMessage\<close> raised; it has posted the
  user's message, the typing indicator on, that error turn, and the typing indicator off;
  and nothing else of the session has changed: the current-plan slot holds the plan it held
  before, and no fallback plan is made. The message is classified on its lower-case form,
  as \<^verbatim>\<open>toLowerCase\<close> of the platform gives it, and blank means that \<^verbatim>\<open>trim\<close> leaves nothing
  of it. (A session holds a plan only after its project context was set, and the
  modification prompt can be built whenever the phases of the current plan are an array
  without \<^verbatim>\<open>null\<close> and a template literal can print the plan's summary and the title and
  summary of every phase.)
\<close>

theorem C7_failed_modification_keeps_plan:
  assumes "trim msg \<noteq> []"
    and "regexTest editVerbs (lowerCase pf msg)" and "regexTest planNouns (lowerCase pf msg)"
    and "truthy (currentPlan s)"
    and "projectContext s = Some context"
    and "modificationPrompt (post (Typing True) (pushAndPost (userChatMessage pf msg) s)) msg
           = Inr prompt"
    and "gemini pf prompt = Candidate reason (Inr raw)"
    and "stripFences (trim raw) = Inr text"
    and "JSON_parse pf text = None"
    and "\<forall>m. matchBraces text = Some m \<longrightarrow> JSON_parse pf m = None"
  shows "handleChatMessage pf s msg requested
           = s\<lparr>conversationHistory := conversationHistory s
                  @ [userChatMessage pf msg,
                     \<lparr>role = Assistant,
                      content = crossMark @ '' Error: ''
                        @ (if sessionReady (llmService s)
                           then ''Failed to generate content with Gemini''
                           else ''Gemini chat session not initialized. Check API key and provider configuration.''),
                      timestamp = isoTime pf ErrorMessageSite, plan = None\<rparr>],
               posted := posted s
                  @ [AddMessage (userChatMessage pf msg), Typing True,
                     AddMessage
                       \<lparr>role = Assistant,
                        content = crossMark @ '' Error: ''
                          @ (if sessionReady (llmService s)
                             then ''Failed to generate content with Gemini''
                             else ''Gemini chat session not initialized. Check API key and provider configuration.''),
                        timestamp = isoTime pf ErrorMessageSite, plan = None\<rparr>,
                     Typing False]\<rparr>
       \<and> currentPlan (handleChatMessage pf s msg requested) = currentPlan s"
proof -
  let ?s1 = "post (Typing True) (pushAndPost (userChatMessage pf msg) s)"
  let ?m = "if sessionReady (llmService s)
            then ''Failed to generate content with Gemini''
            else ''Gemini chat session not initialized. Check API key and provider configuration.''"
  have f: "\<exists>e. sendMessageTry pf prompt = Inl e"
    by (rule sendMessageTry_unparseable [OF assms(7,8,9,10)])
  have c: "currentPlan ?s1 = currentPlan s" "projectContext ?s1 = Some context"
    "llmService ?s1 = llmService s"
    using assms(5) by (simp_all add: post_def pushAndPost_def)
  have g: "generateResponse pf ?s1 msg (case requested of None \<Rightarrow> Phase | Some m \<Rightarrow> m)
             = (Inl (Error ?m), ?s1)"
    using assms(2,3,4) c modifyPlan_backend_fails [OF assms(6) f]
    by (simp add: generateResponse_def Let_def)
  have h: "handleChatMessage pf s msg requested
             = post (Typing False) (pushAndPost (errorMessage pf (Error ?m)) ?s1)"
    using assms(1) trim_nonempty [OF assms(1)] c(2) g
    by (simp add: handleChatMessage_def Let_def)
  show ?thesis
    unfolding h by (simp add: post_def pushAndPost_def errorMessage_def exnMessage_def)
qed

lemma changeRequest_is_modification:
  "trim changeRequest \<noteq> [] \<and> regexTest editVerbs (lowerCase (replying refusal) changeRequest)
   \<and> regexTest planNouns (lowerCase (replying refusal) changeRequest) \<and> truthy (currentPlan planningSession)
   \<and> projectContext planningSession = Some emptyContext"
  by code_simp

lemma changeRequest_prompt:
  "modificationPrompt
     (post (Typing True) (pushAndPost (userChatMessage (replying refusal) changeRequest)
        planningSession)) changeRequest
   = Inr (projr (modificationPrompt
       (post (Typing True) (pushAndPost (userChatMessage (replying refusal) changeRequest)
          planningSession)) changeRequest))"
  by code_simp

theorem C7_witness_refused_modification:
  "trim changeRequest \<noteq> [] \<and> regexTest editVerbs (lowerCase (replying refusal) changeRequest)
   \<and> regexTest planNouns (lowerCase (replying refusal) changeRequest) \<and> truthy (currentPlan planningSession)
   \<and> JSON_parse (replying refusal) refusal = None
   \<and> currentPlan (handleChatMessage (replying refusal) planningSession changeRequest None)
       = wellFormedPlan
   \<and> map content
       (conversationHistory
          (handleChatMessage (replying refusal) planningSession changeRequest None))
       = [changeRequest, crossMark @ '' Error: Failed to generate content with Gemini'']"
proof -
  have a: "trim changeRequest \<noteq> []" "regexTest editVerbs (lowerCase (replying refusal) changeRequest)"
    "regexTest planNouns (lowerCase (replying refusal) changeRequest)" "truthy (currentPlan planningSession)"
    "projectContext planningSession = Some emptyContext"
    using changeRequest_is_modification by simp_all
  have b: "stripFences (trim refusal) = Inr refusal"
    "JSON_parse (replying refusal) refusal = None"
    "\<forall>m. matchBraces refusal = Some m \<longrightarrow> JSON_parse (replying refusal) m = None"
    using refusal_unparseable by simp_all
  have g: "gemini (replying refusal)
             (projr (modificationPrompt
                (post (Typing True)
                   (pushAndPost (userChatMessage (replying refusal) changeRequest)
                      planningSession)) changeRequest))
           = Candidate None (Inr refusal)"
    by (simp add: replying_def refPlatform_def)
  from C7_failed_modification_keeps_plan [OF a changeRequest_prompt g b, of None]
  show ?thesis
    using a b(2)
    by (simp add: planningSession_def geminiService_def userChatMessage_def)
qed

end
